theory Spec2Isabelle
  imports Complex_Main "HOL-Library.AList" "HOL-Library.Log_Nat"
begin

section \<open>The compliance server of \<^verbatim>\<open>backend/server.py\<close>\<close>

text \<open>
  The model follows \<^verbatim>\<open>src/backend/server.py\<close> function by function.

  \<^item> A \<^verbatim>\<open>datetime\<close> is an integer counting the milliseconds (the resolution of the
    document store) since \<^verbatim>\<open>datetime.min\<close>, the start of year 1; the valid ones run
    up to the end of year 9999. A \<^verbatim>\<open>timedelta\<close> is a number of milliseconds.
    Where an operand of the time arithmetic comes from the request (the duration of a
    usage report, the number of days of an analytics query), the \<^verbatim>\<open>OverflowError\<close> of
    \<^verbatim>\<open>timedelta(...)\<close> and of \<^verbatim>\<open>datetime - timedelta\<close> is a result of the model.
    The arithmetic on the clock with a constant offset (30, 14 and 7 days back, one day
    ahead) cannot leave the range at a clock reading between the years 2 and 9998 and is
    written without the check.
  \<^item> A Python \<^verbatim>\<open>float\<close> is the rational number it denotes. Division, multiplication
    and \<^verbatim>\<open>round\<close> return the binary64 number nearest to the exact result, a tie
    going to the even significand (\<open>fl\<close>). The exponent range of binary64 is not
    modelled: the quantities of the program are quotients of sums of at most 1000 stored
    durations and stay far inside it.
  \<^item> A MongoDB collection is the list of its documents in insertion order;
    \<^verbatim>\<open>find\<close> filters it, \<^verbatim>\<open>sort\<close> is a stable sort, \<^verbatim>\<open>to_list(n)\<close> keeps the first
    \<open>n\<close> documents, \<^verbatim>\<open>find_one\<close> returns the first match.
  \<^item> A request is served at one reading \<open>now\<close> of \<^verbatim>\<open>datetime.utcnow()\<close>, and the
    fresh \<^verbatim>\<open>uuid4\<close> of a new document is a parameter.
  \<^item> An exception is a value of type \<open>error\<close>; a function that can raise returns
    \<open>error + 'a\<close>. A function that can raise after it has written returns its
    result together with the state it leaves.
  \<^item> Record fields carry a prefix where two classes of the source share a field name.
  \<^item> The optional fields of a stored session (\<^verbatim>\<open>end_time\<close>, \<^verbatim>\<open>duration_minutes\<close>,
    \<^verbatim>\<open>compliance_score\<close>) are set by the only constructor call of the source, so the
    stored document holds their values.
\<close>

subsection \<open>Exceptions\<close>

datatype error = HTTP404 | KeyError | OverflowError | WebSocketError

subsection \<open>Time\<close>

type_synonym datetime = int

definition timedelta_days :: "int \<Rightarrow> int" where
  "timedelta_days d = d * 86400000"

definition timedelta_minutes :: "int \<Rightarrow> int" where
  "timedelta_minutes m = m * 60000"

text \<open>The constructor \<^verbatim>\<open>timedelta(...)\<close> raises \<^verbatim>\<open>OverflowError\<close> when the number of
  whole days is outside \<open>\<plusminus>999999999\<close>.\<close>

definition timedelta :: "int \<Rightarrow> error + int" where
  "timedelta ms =
     (if - 999999999 \<le> ms div 86400000 \<and> ms div 86400000 \<le> 999999999 then Inr ms
      else Inl OverflowError)"

text \<open>\<^verbatim>\<open>datetime.max\<close> is the last millisecond of 9999-12-31, day 3652059 of the
  calendar.\<close>

definition datetime_max :: datetime where
  "datetime_max = 3652059 * 86400000 - 1"

text \<open>\<^verbatim>\<open>t - delta\<close> for a \<^verbatim>\<open>datetime\<close> and a \<^verbatim>\<open>timedelta\<close>.\<close>

definition datetime_sub :: "datetime \<Rightarrow> int \<Rightarrow> error + datetime" where
  "datetime_sub t delta =
     (if 0 \<le> t - delta \<and> t - delta \<le> datetime_max then Inr (t - delta)
      else Inl OverflowError)"

text \<open>\<^verbatim>\<open>strftime("%Y-%m-%d")\<close>: the calendar day of a time, as the number of the day.\<close>

definition date_key :: "datetime \<Rightarrow> int" where
  "date_key t = t div 86400000"

subsection \<open>Floating point\<close>

text \<open>The integer nearest to \<open>y\<close>, a tie going to the even one.\<close>

definition round_half_even :: "rat \<Rightarrow> int" where
  "round_half_even y =
     (let f = \<lfloor>y\<rfloor>; r = y - of_int f
      in if r < 1 / 2 then f
         else if 1 / 2 < r then f + 1
         else if even f then f else f + 1)"

text \<open>The exponent \<open>e\<close> of the binary64 grid around \<open>x \<noteq> 0\<close>:
  \<open>2^52 \<le> |x| / 2^e < 2^53\<close>.\<close>

definition float_exponent :: "rat \<Rightarrow> int" where
  "float_exponent x =
     (let (p, q) = quotient_of \<bar>x\<bar>;
          k = bitlen p - bitlen q
      in (if 2 powi k \<le> \<bar>x\<bar> then k else k - 1) - 52)"

text \<open>The binary64 number nearest to \<open>x\<close>.\<close>

definition fl :: "rat \<Rightarrow> rat" where
  "fl x = (if x = 0 then 0
           else of_int (round_half_even (x / 2 powi float_exponent x)) * 2 powi float_exponent x)"

text \<open>\<^verbatim>\<open>x / y\<close> (true division, also of two integers) and \<^verbatim>\<open>x * y\<close>.\<close>

definition fdiv :: "rat \<Rightarrow> rat \<Rightarrow> rat" where
  "fdiv x y = fl (x / y)"

definition fmul :: "rat \<Rightarrow> rat \<Rightarrow> rat" where
  "fmul x y = fl (x * y)"

text \<open>\<^verbatim>\<open>round(x, n)\<close> for a float \<open>x\<close> and \<open>n \<ge> 0\<close>: the float nearest to the decimal
  with \<open>n\<close> places that is nearest to \<open>x\<close>, a tie going to the even last digit.\<close>

definition py_round :: "rat \<Rightarrow> nat \<Rightarrow> rat" where
  "py_round x n = fl (of_int (round_half_even (x * 10 ^ n)) / 10 ^ n)"

subsection \<open>Dictionaries\<close>

text \<open>A \<^verbatim>\<open>dict\<close> is an association list in insertion order.
  \<^verbatim>\<open>d.get(k, default)\<close>, \<^verbatim>\<open>d[k]\<close> and \<^verbatim>\<open>d[k] = v\<close>:\<close>

definition dict_get :: "('k \<times> 'v) list \<Rightarrow> 'k \<Rightarrow> 'v \<Rightarrow> 'v" where
  "dict_get d k dflt = (case map_of d k of None \<Rightarrow> dflt | Some v \<Rightarrow> v)"

definition dict_item :: "('k \<times> 'v) list \<Rightarrow> 'k \<Rightarrow> error + 'v" where
  "dict_item d k = (case map_of d k of None \<Rightarrow> Inl KeyError | Some v \<Rightarrow> Inr v)"

definition dict_set :: "('k \<times> 'v) list \<Rightarrow> 'k \<Rightarrow> 'v \<Rightarrow> ('k \<times> 'v) list" where
  "dict_set d k v = AList.update k v d"

subsection \<open>Models (the pydantic classes)\<close>

record user =
  user_id :: string
  user_name :: string
  user_type :: string
  user_patient_id :: "string option"
  user_doctor_id :: "string option"
  user_created_at :: datetime

record bluetooth_device =
  dev_id :: string
  dev_patient_id :: string
  device_name :: string
  dev_device_id :: string
  is_connected :: bool
  last_connected :: "datetime option"
  dev_created_at :: datetime

record device_usage_session =
  session_id :: string
  patient_id :: string
  device_id :: string
  start_time :: datetime
  end_time :: datetime
  duration_minutes :: int
  time_of_day :: string
  compliance_score :: rat
  created_at :: datetime

record bluetooth_data =
  bd_patient_id :: string
  bd_device_id :: string
  usage_duration :: int
  bd_time_of_day :: string
  timestamp :: datetime


subsection \<open>The state: three collections and the connection manager\<close>

text \<open>A websocket of the connection manager either takes a message or, when its peer
  has gone, raises on \<^verbatim>\<open>send_text\<close>.\<close>

datatype websocket = Open | Closed

record server_state =
  users :: "user list"
  bluetooth_devices :: "bluetooth_device list"
  usage_sessions :: "device_usage_session list"
  active_connections :: "string \<rightharpoonup> websocket"
  sent :: "(string \<times> device_usage_session) list"

definition find_one :: "('a \<Rightarrow> bool) \<Rightarrow> 'a list \<Rightarrow> 'a option" where
  "find_one P xs = List.find P xs"

definition to_list :: "nat \<Rightarrow> 'a list \<Rightarrow> 'a list" where
  "to_list n xs = take n xs"

text \<open>\<^verbatim>\<open>update_one(filter, {"$set": ...})\<close> without \<^verbatim>\<open>upsert\<close>: the first matching
  document is changed; when none matches, the collection stays as it is.\<close>

fun update_one :: "('a \<Rightarrow> bool) \<Rightarrow> ('a \<Rightarrow> 'a) \<Rightarrow> 'a list \<Rightarrow> 'a list" where
  "update_one P f [] = []"
| "update_one P f (x # xs) = (if P x then f x # xs else x # update_one P f xs)"

text \<open>\<^verbatim>\<open>ConnectionManager.send_personal_message\<close>: the message goes out when the user has
  an active connection, and nothing happens when the user has none.\<close>

definition send_personal_message ::
  "device_usage_session \<Rightarrow> string \<Rightarrow> server_state \<Rightarrow> error + server_state" where
  "send_personal_message msg uid st =
     (case active_connections st uid of
        None \<Rightarrow> Inr st
      | Some ws \<Rightarrow>
          (case ws of
             Open \<Rightarrow> Inr (st\<lparr>sent := sent st @ [(uid, msg)]\<rparr>)
           | Closed \<Rightarrow> Inl WebSocketError))"

subsection \<open>\<^verbatim>\<open>receive_bluetooth_data\<close>\<close>

record usage_response =
  success :: bool
  session :: device_usage_session

text \<open>The constructor call \<^verbatim>\<open>DeviceUsageSession(...)\<close>; its arguments are evaluated in
  the order written, the start time first.\<close>

definition new_session ::
  "string \<Rightarrow> datetime \<Rightarrow> bluetooth_data \<Rightarrow> error + device_usage_session" where
  "new_session new_id now data =
     (case timedelta (timedelta_minutes (usage_duration data)) of
        Inl e \<Rightarrow> Inl e
      | Inr delta \<Rightarrow>
          (case datetime_sub (timestamp data) delta of
             Inl e \<Rightarrow> Inl e
           | Inr start \<Rightarrow>
               Inr \<lparr>session_id = new_id,
                    patient_id = bd_patient_id data,
                    device_id = bd_device_id data,
                    start_time = start,
                    end_time = timestamp data,
                    duration_minutes = usage_duration data,
                    time_of_day = bd_time_of_day data,
                    compliance_score =
                      min 100 (fmul (fdiv (of_int (usage_duration data)) 480) 100),
                    created_at = now\<rparr>))"

text \<open>The result is the response or the exception, together with the state after the
  call: an exception of the constructor leaves the state as it was, an exception of the
  websocket comes after both writes.\<close>

definition receive_bluetooth_data ::
  "string \<Rightarrow> datetime \<Rightarrow> server_state \<Rightarrow> bluetooth_data
     \<Rightarrow> (error + usage_response) \<times> server_state" where
  "receive_bluetooth_data new_id now st data =
     (case new_session new_id now data of
        Inl e \<Rightarrow> (Inl e, st)
      | Inr s \<Rightarrow>
          (let st1 = st\<lparr>usage_sessions := usage_sessions st @ [s]\<rparr>;
               st2 = st1\<lparr>bluetooth_devices :=
                       update_one
                         (\<lambda>d. dev_device_id d = bd_device_id data
                               \<and> dev_patient_id d = bd_patient_id data)
                         (\<lambda>d. d\<lparr>is_connected := True, last_connected := Some now\<rparr>)
                         (bluetooth_devices st1)\<rparr>
           in case send_personal_message s (bd_patient_id data) st2 of
                Inl e \<Rightarrow> (Inl e, st2)
              | Inr st3 \<Rightarrow> (Inr \<lparr>success = True, session = s\<rparr>, st3)))"

subsection \<open>\<^verbatim>\<open>calculate_usage_trend\<close>\<close>

record usage_trend =
  direction :: string
  percentage :: rat

definition last_week_sessions ::
  "datetime \<Rightarrow> server_state \<Rightarrow> string \<Rightarrow> device_usage_session list" where
  "last_week_sessions now st pid =
     to_list 1000
       (filter (\<lambda>s. patient_id s = pid \<and> now - timedelta_days 7 \<le> created_at s)
          (usage_sessions st))"

definition prev_week_sessions ::
  "datetime \<Rightarrow> server_state \<Rightarrow> string \<Rightarrow> device_usage_session list" where
  "prev_week_sessions now st pid =
     to_list 1000
       (filter (\<lambda>s. patient_id s = pid \<and> now - timedelta_days 14 \<le> created_at s
                     \<and> created_at s < now - timedelta_days 7)
          (usage_sessions st))"

definition last_week_duration :: "datetime \<Rightarrow> server_state \<Rightarrow> string \<Rightarrow> int" where
  "last_week_duration now st pid = sum_list (map duration_minutes (last_week_sessions now st pid))"

definition prev_week_duration :: "datetime \<Rightarrow> server_state \<Rightarrow> string \<Rightarrow> int" where
  "prev_week_duration now st pid = sum_list (map duration_minutes (prev_week_sessions now st pid))"

definition calculate_usage_trend :: "datetime \<Rightarrow> server_state \<Rightarrow> string \<Rightarrow> usage_trend" where
  "calculate_usage_trend now st pid =
     (let last_w = last_week_duration now st pid;
          prev_w = prev_week_duration now st pid
      in if prev_w = 0 then
           (if 0 < last_w then \<lparr>direction = ''increasing'', percentage = 100\<rparr>
            else \<lparr>direction = ''stable'', percentage = 0\<rparr>)
         else
           (let change_percentage = fmul (fdiv (of_int (last_w - prev_w)) (of_int prev_w)) 100
            in if 10 < change_percentage then
                 \<lparr>direction = ''increasing'', percentage = py_round change_percentage 1\<rparr>
               else if change_percentage < - 10 then
                 \<lparr>direction = ''decreasing'', percentage = py_round \<bar>change_percentage\<bar> 1\<rparr>
               else
                 \<lparr>direction = ''stable'', percentage = py_round \<bar>change_percentage\<bar> 1\<rparr>))"

subsection \<open>\<^verbatim>\<open>get_patient_compliance\<close>\<close>

record compliance_response =
  r_patient_id :: string
  r_patient_name :: string
  total_sessions :: nat
  total_duration_minutes :: int
  average_daily_usage :: rat
  average_daily_hours :: rat
  compliance_percentage :: rat
  last_session :: "datetime option"
  device_connected :: bool
  usage_trend :: usage_trend

definition compliance_sessions ::
  "datetime \<Rightarrow> server_state \<Rightarrow> string \<Rightarrow> device_usage_session list" where
  "compliance_sessions now st pid =
     to_list 1000
       (filter (\<lambda>s. patient_id s = pid \<and> now - timedelta_days 30 \<le> created_at s)
          (usage_sessions st))"

definition get_patient_compliance ::
  "datetime \<Rightarrow> server_state \<Rightarrow> string \<Rightarrow> error + compliance_response" where
  "get_patient_compliance now st pid =
     (case find_one (\<lambda>u. user_id u = pid) (users st) of
        None \<Rightarrow> Inl HTTP404
      | Some u \<Rightarrow>
         (let sessions = compliance_sessions now st pid;
              dev_connected =
                (case find_one (\<lambda>d. dev_patient_id d = pid) (bluetooth_devices st) of
                   None \<Rightarrow> False
                 | Some d \<Rightarrow> is_connected d);
              total_duration = sum_list (map duration_minutes sessions);
              total_sess = length sessions;
              average_daily_usage_minutes =
                (if 0 < total_duration then fdiv (of_int total_duration) 30 else 0);
              avg_daily_hours = fdiv average_daily_usage_minutes 60;
              target_minutes_per_month = (30 * 8 * 60 :: int);
              compliance_pct =
                min 100 (fmul (fdiv (of_int total_duration) (of_int target_minutes_per_month)) 100);
              last_sess =
                (if sessions \<noteq> [] then Some (Max (set (map created_at sessions))) else None);
              trend = calculate_usage_trend now st pid
          in Inr \<lparr>r_patient_id = pid,
                  r_patient_name = user_name u,
                  total_sessions = total_sess,
                  total_duration_minutes = total_duration,
                  average_daily_usage = average_daily_usage_minutes,
                  average_daily_hours = py_round avg_daily_hours 2,
                  compliance_percentage = compliance_pct,
                  last_session = last_sess,
                  device_connected = dev_connected,
                  usage_trend = trend\<rparr>))"

subsection \<open>\<^verbatim>\<open>get_patient_analytics\<close>\<close>

record daily_usage_point =
  date :: int
  usage_minutes :: int
  usage_hours :: rat

record analytics_response =
  time_series :: "daily_usage_point list"
  day_night_distribution :: "(string \<times> int) list"
  total_days :: nat
  active_days :: nat
  average_daily_minutes :: rat
  an_average_daily_hours :: rat

text \<open>\<^verbatim>\<open>start_date = datetime.utcnow() - timedelta(days=days)\<close>\<close>

definition analytics_start :: "datetime \<Rightarrow> int \<Rightarrow> error + datetime" where
  "analytics_start now days =
     (case timedelta (timedelta_days days) of
        Inl e \<Rightarrow> Inl e
      | Inr delta \<Rightarrow> datetime_sub now delta)"

definition analytics_sessions ::
  "datetime \<Rightarrow> server_state \<Rightarrow> string \<Rightarrow> device_usage_session list" where
  "analytics_sessions start_date st pid =
     to_list 1000
       (sort_key created_at
          (filter (\<lambda>s. patient_id s = pid \<and> start_date \<le> created_at s)
             (usage_sessions st)))"

text \<open>The loop over the sessions: \<^verbatim>\<open>daily_usage\<close> is a \<^verbatim>\<open>defaultdict(int)\<close>,
  \<^verbatim>\<open>day_night_usage\<close> a plain \<^verbatim>\<open>dict\<close>, whose \<^verbatim>\<open>+=\<close> raises \<^verbatim>\<open>KeyError\<close> on a
  missing key.\<close>

fun group_sessions ::
  "device_usage_session list \<Rightarrow> (int \<times> int) list \<Rightarrow> (string \<times> int) list
     \<Rightarrow> error + ((int \<times> int) list \<times> (string \<times> int) list)" where
  "group_sessions [] daily_usage day_night_usage = Inr (daily_usage, day_night_usage)"
| "group_sessions (s # ss) daily_usage day_night_usage =
     (let dk = date_key (created_at s);
          daily_usage' = dict_set daily_usage dk (dict_get daily_usage dk 0 + duration_minutes s)
      in case dict_item day_night_usage (time_of_day s) of
           Inl e \<Rightarrow> Inl e
         | Inr v \<Rightarrow>
             group_sessions ss daily_usage'
               (dict_set day_night_usage (time_of_day s) (v + duration_minutes s)))"

definition usage_point :: "(int \<times> int) list \<Rightarrow> int \<Rightarrow> daily_usage_point" where
  "usage_point daily_usage dk =
     \<lparr>date = dk,
      usage_minutes = dict_get daily_usage dk 0,
      usage_hours = py_round (fdiv (of_int (dict_get daily_usage dk 0)) 60) 2\<rparr>"

text \<open>The \<^verbatim>\<open>while current_date <= datetime.utcnow()\<close> loop.\<close>

function series_from :: "datetime \<Rightarrow> datetime \<Rightarrow> (int \<times> int) list \<Rightarrow> daily_usage_point list" where
  "series_from current_date now daily_usage =
     (if current_date \<le> now
      then usage_point daily_usage (date_key current_date)
             # series_from (current_date + timedelta_days 1) now daily_usage
      else [])"
  by pat_completeness auto
termination
  by (relation "measure (\<lambda>(c, n, d). nat (n - c + 1))") (auto simp: timedelta_days_def)

declare series_from.simps [simp del]

definition get_patient_analytics ::
  "datetime \<Rightarrow> server_state \<Rightarrow> string \<Rightarrow> int \<Rightarrow> error + analytics_response" where
  "get_patient_analytics now st pid days =
     (case analytics_start now days of
        Inl e \<Rightarrow> Inl e
      | Inr start_date \<Rightarrow>
          (let sessions = analytics_sessions start_date st pid
           in case group_sessions sessions [] [(''day'', 0), (''night'', 0)] of
                Inl e \<Rightarrow> Inl e
              | Inr (daily_usage, day_night_usage) \<Rightarrow>
                  Inr \<lparr>time_series = series_from start_date now daily_usage,
                       day_night_distribution = day_night_usage,
                       total_days = length daily_usage,
                       active_days = length (filter (\<lambda>d. 0 < d) (map snd daily_usage)),
                       average_daily_minutes =
                         fdiv (of_int (sum_list (map snd daily_usage)))
                           (of_nat (max (length daily_usage) 1)),
                       an_average_daily_hours =
                         py_round
                           (fdiv (fdiv (of_int (sum_list (map snd daily_usage)))
                                    (of_nat (max (length daily_usage) 1))) 60) 2\<rparr>))"

subsection \<open>\<^verbatim>\<open>get_doctor_patients\<close>\<close>








subsection \<open>Example data\<close>

text \<open>Midnight of 2025-01-01, day 739251 of the calendar.\<close>

definition example_time :: datetime where
  "example_time = timedelta_days 739251"

definition example_user :: user where
  "example_user =
     \<lparr>user_id = ''p1'', user_name = ''Test Patient'', user_type = ''patient'',
      user_patient_id = Some ''patient_1'', user_doctor_id = None, user_created_at = 0\<rparr>"

definition example_device :: bluetooth_device where
  "example_device =
     \<lparr>dev_id = ''b1'', dev_patient_id = ''p1'', device_name = ''ESP Device'',
      dev_device_id = ''dev1'', is_connected = False, last_connected = None,
      dev_created_at = 0\<rparr>"

definition example_data :: "int \<Rightarrow> string \<Rightarrow> datetime \<Rightarrow> bluetooth_data" where
  "example_data d tod t =
     \<lparr>bd_patient_id = ''p1'', bd_device_id = ''dev1'', usage_duration = d,
      bd_time_of_day = tod, timestamp = t\<rparr>"

text \<open>The session that a report of \<open>d\<close> minutes leaves in the store when it is made and
  received at time \<open>t\<close>.\<close>

definition example_session :: "int \<Rightarrow> string \<Rightarrow> datetime \<Rightarrow> device_usage_session" where
  "example_session d tod t =
     \<lparr>session_id = ''s'', patient_id = ''p1'', device_id = ''dev1'',
      start_time = t - timedelta_minutes d, end_time = t, duration_minutes = d,
      time_of_day = tod, compliance_score = min 100 (fmul (fdiv (of_int d) 480) 100),
      created_at = t\<rparr>"

definition example_state :: "device_usage_session list \<Rightarrow> server_state" where
  "example_state ss =
     \<lparr>users = [example_user], bluetooth_devices = [example_device], usage_sessions = ss,
      active_connections = [''p1'' \<mapsto> Open], sent = []\<rparr>"

definition capped_sessions :: "device_usage_session list" where
  "capped_sessions =
     replicate 1000 (example_session 10 ''day'' (timedelta_days 100))
       @ [example_session 10 ''day'' (timedelta_days 101)]"

text \<open>A previous week of 5000 minutes, and a recent week of 1000 sessions of one minute
  followed by one session of 100000 minutes.\<close>

definition trend_sessions :: "device_usage_session list" where
  "trend_sessions =
     example_session 5000 ''day'' (timedelta_days 10)
       # replicate 1000 (example_session 1 ''day'' (timedelta_days 15))
       @ [example_session 100000 ''day'' (timedelta_days 16)]"


text \<open>A session of 60 minutes on 2025-01-01 and one of 30 minutes two days later.\<close>

definition window_sessions :: "device_usage_session list" where
  "window_sessions =
     [example_session 60 ''day'' (timedelta_days 739251),
      example_session 30 ''night'' (timedelta_days 739253)]"



definition no_device_state :: server_state where
  "no_device_state =
     \<lparr>users = [example_user], bluetooth_devices = [], usage_sessions = [],
      active_connections = Map.empty, sent = []\<rparr>"

section \<open>Properties\<close>

subsection \<open>Rounding to binary64\<close>

lemma bitlen_rat_bounds:
  assumes "0 < p"
  shows "(2::rat) powi (bitlen p - 1) \<le> of_int p" "of_int p < (2::rat) powi bitlen p"
proof -
  from bitlen_bounds [OF assms]
  have lo: "2 ^ nat (bitlen p - 1) \<le> p" and hi: "p < 2 ^ nat (bitlen p)" by simp_all
  have b1: "1 \<le> bitlen p"
    using assms bitlen_eq_zero_iff [of p] bitlen_nonneg [of p] by linarith
  from lo have "(of_int (2 ^ nat (bitlen p - 1)) :: rat) \<le> of_int p"
    by (simp only: of_int_le_iff)
  then show "(2::rat) powi (bitlen p - 1) \<le> of_int p"
    using b1 by (simp add: power_int_def)
  from hi have "(of_int p :: rat) < of_int (2 ^ nat (bitlen p))"
    by (simp only: of_int_less_iff)
  then show "of_int p < (2::rat) powi bitlen p"
    using b1 by (simp add: power_int_def)
qed

lemma float_exponent_bounds:
  assumes "x \<noteq> 0"
  shows "2 powi (float_exponent x + 52) \<le> \<bar>x\<bar>" "\<bar>x\<bar> < 2 powi (float_exponent x + 53)"
proof -
  obtain p q where pq: "quotient_of \<bar>x\<bar> = (p, q)" by (cases "quotient_of \<bar>x\<bar>")
  have q: "0 < q" using quotient_of_denom_pos [OF pq] .
  have x: "\<bar>x\<bar> = of_int p / of_int q" using quotient_of_div [OF pq] .
  have "0 < \<bar>x\<bar>" using assms by simp
  then have p: "0 < p" unfolding x using q by (simp add: zero_less_divide_iff)
  let ?k = "bitlen p - bitlen q"
  note P = bitlen_rat_bounds [OF p] and Q = bitlen_rat_bounds [OF q]
  have qpos: "(0::rat) < of_int q" using q by simp
  have "\<bar>x\<bar> < 2 powi bitlen p / 2 powi (bitlen q - 1)"
    unfolding x using P(2) Q(1) p
    by (intro frac_less) simp_all
  also have "\<dots> = 2 powi (?k + 1)"
    by (simp add: power_int_diff [symmetric] algebra_simps)
  finally have hi: "\<bar>x\<bar> < 2 powi (?k + 1)" .
  have "2 powi (bitlen p - 1) / 2 powi bitlen q < \<bar>x\<bar>"
    unfolding x using P(1) Q(2) qpos
    by (intro frac_less2) simp_all
  then have lo: "2 powi (?k - 1) < \<bar>x\<bar>"
    by (simp add: power_int_diff [symmetric] algebra_simps)
  have e: "float_exponent x = (if 2 powi ?k \<le> \<bar>x\<bar> then ?k else ?k - 1) - 52"
    by (simp add: float_exponent_def pq Let_def)
  show "2 powi (float_exponent x + 52) \<le> \<bar>x\<bar>"
    using lo by (simp add: e less_imp_le)
  show "\<bar>x\<bar> < 2 powi (float_exponent x + 53)"
    using hi by (auto simp: e not_le algebra_simps)
qed

lemma pow2_less_D: "(2::rat) powi m < 2 powi n \<Longrightarrow> m < n"
proof (rule ccontr)
  assume a: "(2::rat) powi m < 2 powi n" and "\<not> m < n"
  then have "n \<le> m" by simp
  from power_int_increasing [OF this, of "2::rat"] a show False by simp
qed

lemma pow2_pos_nonzero: "(2::rat) powi e \<le> \<bar>x\<bar> \<Longrightarrow> x \<noteq> 0"
proof
  assume a: "(2::rat) powi e \<le> \<bar>x\<bar>" and "x = 0"
  then have "(2::rat) powi e \<le> 0" by simp
  moreover have "(0::rat) < 2 powi e" by simp
  ultimately show False by linarith
qed

lemma float_exponent_unique:
  assumes "2 powi (e + 52) \<le> \<bar>x\<bar>" and "\<bar>x\<bar> < 2 powi (e + 53)"
  shows "float_exponent x = e"
proof -
  from pow2_pos_nonzero [OF assms(1)] have nz: "x \<noteq> 0" .
  note B = float_exponent_bounds [OF nz]
  let ?f = "float_exponent x"
  have "(2::rat) powi (e + 52) < 2 powi (?f + 53)" using assms(1) B(2) by simp
  then have 1: "e + 52 < ?f + 53" by (rule pow2_less_D)
  have "(2::rat) powi (?f + 52) < 2 powi (e + 53)" using assms(2) B(1) by simp
  then have 2: "?f + 52 < e + 53" by (rule pow2_less_D)
  from 1 2 show ?thesis by simp
qed

lemma fl_eval:
  assumes "2 powi (e + 52) \<le> \<bar>x\<bar>" and "\<bar>x\<bar> < 2 powi (e + 53)"
  shows "fl x = of_int (round_half_even (x / 2 powi e)) * 2 powi e"
proof -
  from pow2_pos_nonzero [OF assms(1)] have nz: "x \<noteq> 0" .
  show ?thesis by (simp add: fl_def nz float_exponent_unique [OF assms])
qed




lemma fl_zero [simp]: "fl 0 = 0"
  by (simp add: fl_def)




lemma fdiv_zero [simp]: "fdiv 0 y = 0"
  by (simp add: fdiv_def)

lemma fmul_zero [simp]: "fmul 0 y = 0"
  by (simp add: fmul_def)




subsection \<open>Dictionaries and the grouping loop\<close>

lemma dict_get_set:
  "dict_get (dict_set d k v) k' dflt = (if k' = k then v else dict_get d k' dflt)"
  by (simp add: dict_get_def dict_set_def update_conv')

lemma dict_set_keys: "fst ` set (dict_set d k v) = insert k (fst ` set d)"
  by (simp add: dict_set_def dom_update)

lemma dict_set_distinct: "distinct (map fst d) \<Longrightarrow> distinct (map fst (dict_set d k v))"
  by (simp add: dict_set_def distinct_update)



lemma dict_get_member:
  "distinct (map fst al) \<Longrightarrow> (k, v) \<in> set al \<Longrightarrow> dict_get al k dflt = v"
  by (simp add: dict_get_def)






lemma group_sessions_Cons_Inr:
  assumes "group_sessions (s # ss) du dn = Inr r"
  obtains v where "dict_item dn (time_of_day s) = Inr v"
    and "group_sessions ss
       (dict_set du (date_key (created_at s))
          (dict_get du (date_key (created_at s)) 0 + duration_minutes s))
       (dict_set dn (time_of_day s) (v + duration_minutes s)) = Inr r"
proof (cases "dict_item dn (time_of_day s)")
  case (Inl e)
  with assms show ?thesis by (simp add: Let_def)
next
  case (Inr v)
  with assms that [of v] show ?thesis by (simp add: Let_def)
qed

lemma group_sessions_daily:
  assumes "group_sessions ss du dn = Inr (du', dn')" and "distinct (map fst du)"
  shows "distinct (map fst du')
     \<and> fst ` set du' = fst ` set du \<union> (\<lambda>s. date_key (created_at s)) ` set ss
     \<and> (\<forall>k. dict_get du' k 0
            = dict_get du k 0
              + sum_list (map duration_minutes
                  (filter (\<lambda>s. date_key (created_at s) = k) ss)))"
  using assms
proof (induction ss arbitrary: du dn)
  case Nil
  then show ?case by simp
next
  case (Cons s ss)
  let ?dk = "date_key (created_at s)"
  let ?du = "dict_set du ?dk (dict_get du ?dk 0 + duration_minutes s)"
  from Cons.prems(1) obtain v where
    rec: "group_sessions ss ?du (dict_set dn (time_of_day s) (v + duration_minutes s))
            = Inr (du', dn')"
    by (rule group_sessions_Cons_Inr)
  have d: "distinct (map fst ?du)" using Cons.prems(2) by (rule dict_set_distinct)
  from Cons.IH [OF rec d] have
    1: "distinct (map fst du')" and
    2: "fst ` set du' = fst ` set ?du \<union> (\<lambda>s. date_key (created_at s)) ` set ss" and
    3: "\<And>k. dict_get du' k 0
            = dict_get ?du k 0
              + sum_list (map duration_minutes
                  (filter (\<lambda>s. date_key (created_at s) = k) ss))"
    by blast+
  have b2: "fst ` set du' = fst ` set du \<union> (\<lambda>s. date_key (created_at s)) ` set (s # ss)"
    unfolding 2 dict_set_keys by simp
  have b3: "dict_get du' k 0
            = dict_get du k 0
              + sum_list (map duration_minutes
                  (filter (\<lambda>s. date_key (created_at s) = k) (s # ss)))" for k
    unfolding 3 [of k] dict_get_set by simp
  from 1 b2 b3 show ?case by blast
qed

lemma length_dict_card:
  assumes "distinct (map fst al)"
  shows "length al = card (fst ` set al)"
  using distinct_card [OF assms] by simp

lemma count_positive_values:
  assumes "distinct (map fst al)"
  shows "length (filter Q (map snd al)) = card {k \<in> fst ` set al. Q (dict_get al k dflt)}"
proof -
  let ?F = "filter (\<lambda>p. Q (snd p)) al"
  have "length (filter Q (map snd al)) = length (map fst ?F)"
    by (simp add: filter_map comp_def)
  also have "\<dots> = card (set (map fst ?F))"
    by (rule distinct_card [symmetric]) (rule distinct_map_filter [OF assms])
  also have "set (map fst ?F) = {k \<in> fst ` set al. Q (dict_get al k dflt)}"
  proof (rule set_eqI)
    fix k
    show "k \<in> set (map fst ?F) \<longleftrightarrow> k \<in> {k \<in> fst ` set al. Q (dict_get al k dflt)}"
    proof
      assume "k \<in> set (map fst ?F)"
      then obtain p where p: "p \<in> set al" "Q (snd p)" "k = fst p" by auto
      then have kv: "(k, snd p) \<in> set al" by simp
      from dict_get_member [OF assms kv, of dflt] p(2) have "Q (dict_get al k dflt)" by simp
      moreover from p have "k \<in> fst ` set al" by simp
      ultimately show "k \<in> {k \<in> fst ` set al. Q (dict_get al k dflt)}" by simp
    next
      assume "k \<in> {k \<in> fst ` set al. Q (dict_get al k dflt)}"
      then obtain p where p: "p \<in> set al" "k = fst p" and q: "Q (dict_get al k dflt)" by auto
      then have kv: "(k, snd p) \<in> set al" by simp
      from dict_get_member [OF assms kv, of dflt] q have "Q (snd p)" by simp
      with p have "p \<in> set ?F" by simp
      then have "fst p \<in> fst ` set ?F" by (rule imageI)
      with p(2) show "k \<in> set (map fst ?F)" by simp
    qed
  qed
  finally show ?thesis .
qed

subsection \<open>The time series loop\<close>

lemma day_div_sub: "(a - 86400000) div 86400000 = a div 86400000 - (1::int)"
  using div_mult_self1 [of "86400000::int" a "- 1"] by simp

lemma day_div_diff: "(a - d * 86400000) div 86400000 = a div 86400000 - (d::int)"
  using div_mult_self1 [of "86400000::int" a "- d"] by simp

lemma date_key_next: "date_key (t + timedelta_days 1) = date_key t + 1"
  by (simp add: date_key_def timedelta_days_def)

lemma date_key_window: "date_key (now - timedelta_days days) = date_key now - days"
  by (simp add: date_key_def timedelta_days_def day_div_diff)

lemma series_from_upto:
  "series_from c n du
     = map (usage_point du) [date_key c .. date_key c + (n - c) div 86400000]"
proof (induction c n du rule: series_from.induct)
  case (1 c n du)
  show ?case
  proof (cases "c \<le> n")
    case True
    then have nn: "0 \<le> (n - c) div 86400000"
      by (simp add: pos_imp_zdiv_nonneg_iff)
    have step: "(n - (c + 86400000)) div 86400000 = (n - c) div 86400000 - 1"
      using day_div_sub [of "n - c"] by (simp add: algebra_simps)
    have unfold: "series_from c n du
            = usage_point du (date_key c) # series_from (c + timedelta_days 1) n du"
      using True by (subst series_from.simps) simp
    have "series_from (c + timedelta_days 1) n du
            = map (usage_point du)
                [date_key (c + timedelta_days 1)
                   .. date_key (c + timedelta_days 1)
                        + (n - (c + timedelta_days 1)) div 86400000]"
      by (rule "1.IH" [OF True])
    also have "date_key (c + timedelta_days 1) = date_key c + 1"
      by (rule date_key_next)
    also have "(n - (c + timedelta_days 1)) div 86400000 = (n - c) div 86400000 - 1"
      using step by (simp add: timedelta_days_def)
    finally have rest: "series_from (c + timedelta_days 1) n du
            = map (usage_point du) [date_key c + 1 .. date_key c + (n - c) div 86400000]"
      by simp
    have "[date_key c .. date_key c + (n - c) div 86400000]
            = date_key c # [date_key c + 1 .. date_key c + (n - c) div 86400000]"
      using nn by (simp add: upto_rec1)
    with unfold rest show ?thesis by simp
  next
    case False
    then have "(n - c) div 86400000 < 0"
      by (simp add: div_neg_pos_less0)
    moreover from False have "series_from c n du = []"
      by (subst series_from.simps) simp
    ultimately show ?thesis by simp
  qed
qed

lemma series_from_window:
  "series_from (now - timedelta_days days) now du
     = map (usage_point du) [date_key (now - timedelta_days days) .. date_key now]"
proof -
  have "(now - (now - timedelta_days days)) div 86400000 = days"
    by (simp add: timedelta_days_def)
  then have "date_key (now - timedelta_days days)
               + (now - (now - timedelta_days days)) div 86400000 = date_key now"
    by (simp add: date_key_window)
  then show ?thesis by (simp only: series_from_upto)
qed

subsection \<open>The example data and the compliance summary\<close>

lemma example_session_simps:
  "patient_id (example_session d tod t) = ''p1''"
  "duration_minutes (example_session d tod t) = d"
  "time_of_day (example_session d tod t) = tod"
  "created_at (example_session d tod t) = t"
  by (simp_all add: example_session_def)

lemma example_state_simps:
  "users (example_state ss) = [example_user]"
  "bluetooth_devices (example_state ss) = [example_device]"
  "usage_sessions (example_state ss) = ss"
  by (simp_all add: example_state_def)

lemma fdiv_120_30: "fdiv 120 30 = 4"
  unfolding fdiv_def by code_simp

lemma compliance_120: "fmul (fdiv 120 14400) 100 = 7505999378950827 / 9007199254740992"
  unfolding fdiv_def fmul_def by code_simp

lemma gpc_found:
  assumes "find_one (\<lambda>u. user_id u = pid) (users st) = Some u"
  shows "get_patient_compliance now st pid =
     Inr \<lparr>r_patient_id = pid,
          r_patient_name = user_name u,
          total_sessions = length (compliance_sessions now st pid),
          total_duration_minutes = sum_list (map duration_minutes (compliance_sessions now st pid)),
          average_daily_usage =
            (if 0 < sum_list (map duration_minutes (compliance_sessions now st pid))
             then fdiv (of_int (sum_list (map duration_minutes (compliance_sessions now st pid)))) 30
             else 0),
          average_daily_hours =
            py_round
              (fdiv (if 0 < sum_list (map duration_minutes (compliance_sessions now st pid))
                     then fdiv (of_int (sum_list (map duration_minutes
                                  (compliance_sessions now st pid)))) 30
                     else 0) 60) 2,
          compliance_percentage =
            min 100
              (fmul (fdiv (of_int (sum_list (map duration_minutes (compliance_sessions now st pid))))
                       (of_int (30 * 8 * 60))) 100),
          last_session =
            (if compliance_sessions now st pid \<noteq> []
             then Some (Max (set (map created_at (compliance_sessions now st pid)))) else None),
          device_connected =
            (case find_one (\<lambda>d. dev_patient_id d = pid) (bluetooth_devices st) of
               None \<Rightarrow> False | Some d \<Rightarrow> is_connected d),
          usage_trend = calculate_usage_trend now st pid\<rparr>"
  unfolding get_patient_compliance_def Let_def assms by (simp only: option.case)

lemma gpc_not_found:
  "find_one (\<lambda>u. user_id u = pid) (users st) = None
   \<Longrightarrow> get_patient_compliance now st pid = Inl HTTP404"
  by (simp add: get_patient_compliance_def)

lemma trend_empty_window:
  assumes "filter (\<lambda>s. patient_id s = pid \<and> now - timedelta_days 30 \<le> created_at s)
             (usage_sessions st) = []"
  shows "calculate_usage_trend now st pid = \<lparr>direction = ''stable'', percentage = 0\<rparr>"
proof -
  have no: "\<And>s. s \<in> set (usage_sessions st) \<Longrightarrow> patient_id s = pid
              \<Longrightarrow> created_at s < now - timedelta_days 30"
    using assms by (auto simp: filter_empty_conv)
  have "filter (\<lambda>s. patient_id s = pid \<and> now - timedelta_days 7 \<le> created_at s)
          (usage_sessions st) = []"
    using no by (fastforce simp: filter_empty_conv timedelta_days_def)
  moreover have "filter (\<lambda>s. patient_id s = pid \<and> now - timedelta_days 14 \<le> created_at s
                     \<and> created_at s < now - timedelta_days 7) (usage_sessions st) = []"
    using no by (fastforce simp: filter_empty_conv timedelta_days_def)
  ultimately show ?thesis
    by (simp add: calculate_usage_trend_def last_week_duration_def prev_week_duration_def
        last_week_sessions_def prev_week_sessions_def to_list_def)
qed

subsection \<open>The compliance summary\<close>

text \<open>
  Claim C1, as amended. For a patient whose identity resolves, \<^verbatim>\<open>get_patient_compliance\<close>
  succeeds, and its summary is computed from the sessions it fetched: the first 1000, in
  store order, of the patient's sessions with \<open>created_at\<close> in the last 30 days. The
  session count and the total duration are those of the fetched sessions; the average
  daily usage is the total divided by 30 when the total is positive and 0 otherwise; the
  compliance percentage is \<open>min(100, total / (30 * 480) * 100)\<close>, both in float
  arithmetic; the last session is the
  largest \<open>created_at\<close> among the fetched sessions, absent when there are none. With no
  session in the window the summary has 0 sessions, compliance 0 and the trend
  \<open>{stable, 0}\<close>.
\<close>

theorem getCompliance_summary:
  assumes "find_one (\<lambda>u. user_id u = pid) (users st) = Some u"
  shows "\<exists>r. get_patient_compliance now st pid = Inr r
     \<and> compliance_sessions now st pid
         = take 1000 (filter (\<lambda>s. patient_id s = pid \<and> now - timedelta_days 30 \<le> created_at s)
                        (usage_sessions st))
     \<and> total_sessions r = length (compliance_sessions now st pid)
     \<and> total_duration_minutes r = sum_list (map duration_minutes (compliance_sessions now st pid))
     \<and> average_daily_usage r =
         (if 0 < total_duration_minutes r then fdiv (of_int (total_duration_minutes r)) 30 else 0)
     \<and> compliance_percentage r
         = min 100 (fmul (fdiv (of_int (total_duration_minutes r)) (30 * 480)) 100)
     \<and> last_session r =
         (if compliance_sessions now st pid = [] then None
          else Some (Max (created_at ` set (compliance_sessions now st pid))))
     \<and> (filter (\<lambda>s. patient_id s = pid \<and> now - timedelta_days 30 \<le> created_at s)
           (usage_sessions st) = []
        \<longrightarrow> total_sessions r = 0 \<and> compliance_percentage r = 0
            \<and> usage_trend r = \<lparr>direction = ''stable'', percentage = 0\<rparr>)"
  unfolding gpc_found [OF assms]
  by (auto simp: compliance_sessions_def to_list_def trend_empty_window)

lemma capped_compliance_sessions:
  "compliance_sessions (timedelta_days 102) (example_state capped_sessions) ''p1''
     = replicate 1000 (example_session 10 ''day'' (timedelta_days 100))"
  by (simp add: compliance_sessions_def to_list_def example_state_simps capped_sessions_def
      example_session_simps timedelta_days_def)

lemma example_find_user:
  "find_one (\<lambda>u. user_id u = ''p1'') (users (example_state ss)) = Some example_user"
  by (simp add: find_one_def example_state_simps example_user_def)

text \<open>
  The claim as stated fails in two places. With 1001 sessions in the window, stored in
  the order of their creation, the last session reported is the creation time of the first
  1000 and not the largest one of the window. With a stored duration of -30 minutes, which
  \<^verbatim>\<open>receive_bluetooth_data\<close> accepts, the total is -30 and the average is 0, not -1.
\<close>

theorem getCompliance_summary_counterexample:
  "map_sum id last_session
     (get_patient_compliance (timedelta_days 102) (example_state capped_sessions) ''p1'')
     = Inr (Some (timedelta_days 100))
   \<and> Max (created_at ` set (filter (\<lambda>s. patient_id s = ''p1''
                \<and> timedelta_days 102 - timedelta_days 30 \<le> created_at s)
             (usage_sessions (example_state capped_sessions)))) = timedelta_days 101
   \<and> map_sum id (\<lambda>r. (total_duration_minutes r, average_daily_usage r))
       (get_patient_compliance (timedelta_days 102)
          (example_state [example_session (- 30) ''day'' (timedelta_days 100)]) ''p1'')
     = Inr (- 30, 0)"
proof -
  have a: "map_sum id last_session
     (get_patient_compliance (timedelta_days 102) (example_state capped_sessions) ''p1'')
     = Inr (Some (timedelta_days 100))"
    unfolding gpc_found [OF example_find_user] capped_compliance_sessions
    by (simp add: example_session_simps)
  have b: "Max (created_at ` set (filter (\<lambda>s. patient_id s = ''p1''
                \<and> timedelta_days 102 - timedelta_days 30 \<le> created_at s)
             (usage_sessions (example_state capped_sessions)))) = timedelta_days 101"
    by (simp add: example_state_simps capped_sessions_def example_session_simps
        timedelta_days_def)
  have c: "map_sum id (\<lambda>r. (total_duration_minutes r, average_daily_usage r))
       (get_patient_compliance (timedelta_days 102)
          (example_state [example_session (- 30) ''day'' (timedelta_days 100)]) ''p1'')
     = Inr (- 30, 0)"
    unfolding gpc_found [OF example_find_user]
    by (simp add: compliance_sessions_def to_list_def example_state_simps
        example_session_simps timedelta_days_def)
  from a b c show ?thesis by blast
qed

theorem getCompliance_summary_witness:
  "find_one (\<lambda>u. user_id u = ''p1'') (users (example_state [])) = Some example_user
   \<and> (\<exists>r. get_patient_compliance (timedelta_days 102) (example_state []) ''p1'' = Inr r
         \<and> total_sessions r = 0 \<and> compliance_percentage r = 0 \<and> last_session r = None
         \<and> usage_trend r = \<lparr>direction = ''stable'', percentage = 0\<rparr>)
   \<and> (\<exists>r. get_patient_compliance (timedelta_days 102)
               (example_state [example_session 120 ''day'' (timedelta_days 101)]) ''p1'' = Inr r
         \<and> total_sessions r = 1 \<and> total_duration_minutes r = 120
         \<and> average_daily_usage r = 4 \<and> compliance_percentage r = 7505999378950827 / 9007199254740992
         \<and> last_session r = Some (timedelta_days 101))"
proof -
  have a: "\<exists>r. get_patient_compliance (timedelta_days 102) (example_state []) ''p1'' = Inr r
         \<and> total_sessions r = 0 \<and> compliance_percentage r = 0 \<and> last_session r = None
         \<and> usage_trend r = \<lparr>direction = ''stable'', percentage = 0\<rparr>"
    using getCompliance_summary [OF example_find_user, of "timedelta_days 102" "[]"]
    by (auto simp: example_state_simps)
  have b: "\<exists>r. get_patient_compliance (timedelta_days 102)
               (example_state [example_session 120 ''day'' (timedelta_days 101)]) ''p1'' = Inr r
         \<and> total_sessions r = 1 \<and> total_duration_minutes r = 120
         \<and> average_daily_usage r = 4 \<and> compliance_percentage r = 7505999378950827 / 9007199254740992
         \<and> last_session r = Some (timedelta_days 101)"
    using getCompliance_summary [OF example_find_user, of "timedelta_days 102"
        "[example_session 120 ''day'' (timedelta_days 101)]"]
    by (auto simp: example_state_simps example_session_simps timedelta_days_def
        fdiv_120_30 compliance_120)
  from a b example_find_user [of "[]"] show ?thesis by blast
qed

subsection \<open>Auxiliary facts on \<^verbatim>\<open>receive_bluetooth_data\<close>\<close>

lemma new_session_Inr:
  assumes "- 999999999 \<le> timedelta_minutes (usage_duration data) div 86400000"
      and "timedelta_minutes (usage_duration data) div 86400000 \<le> 999999999"
      and "0 \<le> timestamp data - timedelta_minutes (usage_duration data)"
      and "timestamp data - timedelta_minutes (usage_duration data) \<le> datetime_max"
  shows "new_session new_id now data =
     Inr \<lparr>session_id = new_id,
          patient_id = bd_patient_id data,
          device_id = bd_device_id data,
          start_time = timestamp data - timedelta_minutes (usage_duration data),
          end_time = timestamp data,
          duration_minutes = usage_duration data,
          time_of_day = bd_time_of_day data,
          compliance_score = min 100 (fmul (fdiv (of_int (usage_duration data)) 480) 100),
          created_at = now\<rparr>"
  using assms by (simp add: new_session_def timedelta_def datetime_sub_def)


lemma new_session_fields:
  assumes "new_session new_id now data = Inr s"
  shows "start_time s = timestamp data - timedelta_minutes (usage_duration data)"
    and "end_time s = timestamp data"
    and "duration_minutes s = usage_duration data"
    and "time_of_day s = bd_time_of_day data"
    and "compliance_score s = min 100 (fmul (fdiv (of_int (usage_duration data)) 480) 100)"
    and "created_at s = now"
    and "patient_id s = bd_patient_id data"
    and "device_id s = bd_device_id data"
  using assms
  by (auto simp: new_session_def timedelta_def datetime_sub_def split: if_splits)


lemma new_session_neg:
  assumes "usage_duration data < 0"
      and "0 \<le> timestamp data"
      and "timestamp data - timedelta_minutes (usage_duration data) \<le> datetime_max"
  shows "\<exists>s. new_session new_id now data = Inr s"
proof -
  let ?delta = "timedelta_minutes (usage_duration data)"
  have d0: "?delta \<le> 0" using assms(1) by (simp add: timedelta_minutes_def)
  then have 2: "?delta div 86400000 \<le> 999999999"
    using div_nonpos_pos_le0 [of ?delta 86400000] by simp
  have "- datetime_max \<le> ?delta" using assms(2,3) by simp
  then have "(- datetime_max) div 86400000 \<le> ?delta div 86400000" by (rule zdiv_mono1) simp
  then have 1: "- 999999999 \<le> ?delta div 86400000" by (simp add: datetime_max_def)
  have 3: "0 \<le> timestamp data - ?delta" using d0 assms(2) by simp
  from new_session_Inr [OF 1 2 3 assms(3)] show ?thesis by blast
qed

lemma receive_Inl:
  "new_session new_id now data = Inl e
   \<Longrightarrow> receive_bluetooth_data new_id now st data = (Inl e, st)"
  by (simp add: receive_bluetooth_data_def)

lemma receive_sessions:
  "new_session new_id now data = Inr s
   \<Longrightarrow> usage_sessions (snd (receive_bluetooth_data new_id now st data))
         = usage_sessions st @ [s]"
  by (simp add: receive_bluetooth_data_def Let_def send_personal_message_def
      split: option.splits websocket.splits)

lemma receive_devices:
  "new_session new_id now data = Inr s
   \<Longrightarrow> bluetooth_devices (snd (receive_bluetooth_data new_id now st data))
     = update_one
         (\<lambda>d. dev_device_id d = bd_device_id data \<and> dev_patient_id d = bd_patient_id data)
         (\<lambda>d. d\<lparr>is_connected := True, last_connected := Some now\<rparr>)
         (bluetooth_devices st)"
  by (simp add: receive_bluetooth_data_def Let_def send_personal_message_def
      split: option.splits websocket.splits)

lemma receive_result:
  "new_session new_id now data = Inr s
   \<Longrightarrow> fst (receive_bluetooth_data new_id now st data)
        = (if active_connections st (bd_patient_id data) = Some Closed then Inl WebSocketError
           else Inr \<lparr>success = True, session = s\<rparr>)"
  by (simp add: receive_bluetooth_data_def Let_def send_personal_message_def
      split: option.splits websocket.splits)

lemma receive_Inr_D:
  assumes "receive_bluetooth_data new_id now st data = (Inr resp, st')"
  shows "new_session new_id now data = Inr (session resp)"
proof (cases "new_session new_id now data")
  case (Inl e)
  from receive_Inl [OF this, of st] assms show ?thesis by simp
next
  case (Inr s)
  from receive_result [OF this, of st] assms have "session resp = s"
    by (auto split: if_splits)
  with Inr show ?thesis by simp
qed


lemma update_one_no_match:
  "find_one P xs = None \<Longrightarrow> update_one P f xs = xs"
  by (induction xs) (auto simp: find_one_def split: if_splits)

lemma update_one_match:
  "find_one P xs = Some d \<Longrightarrow>
   \<exists>ys zs. xs = ys @ d # zs \<and> (\<forall>y\<in>set ys. \<not> P y) \<and> update_one P f xs = ys @ f d # zs"
proof (induction xs)
  case Nil
  then show ?case by (simp add: find_one_def)
next
  case (Cons x xs)
  show ?case
  proof (cases "P x")
    case True
    with Cons.prems have "x = d" by (simp add: find_one_def)
    with True have "x # xs = [] @ d # xs \<and> (\<forall>y\<in>set []. \<not> P y)
        \<and> update_one P f (x # xs) = [] @ f d # xs"
      by simp
    then show ?thesis by blast
  next
    case False
    with Cons.prems have "find_one P xs = Some d" by (simp add: find_one_def)
    from Cons.IH [OF this] obtain ys zs where
      "xs = ys @ d # zs" "\<forall>y\<in>set ys. \<not> P y" "update_one P f xs = ys @ f d # zs"
      by blast
    with False have "x # xs = (x # ys) @ d # zs \<and> (\<forall>y\<in>set (x # ys). \<not> P y)
        \<and> update_one P f (x # xs) = (x # ys) @ f d # zs"
      by simp
    then show ?thesis by blast
  qed
qed

lemma find_one_append_first:
  "\<forall>y\<in>set ys. \<not> P y \<Longrightarrow> P x \<Longrightarrow> find_one P (ys @ x # zs) = Some x"
  by (induction ys) (auto simp: find_one_def)

lemma example_new_session:
  assumes "0 \<le> t - timedelta_minutes d" and "t - timedelta_minutes d \<le> datetime_max"
      and "- 999999999 \<le> timedelta_minutes d div 86400000"
      and "timedelta_minutes d div 86400000 \<le> 999999999"
  shows "new_session ''s'' t (example_data d tod t) = Inr (example_session d tod t)"
  using assms
  by (simp add: new_session_def timedelta_def datetime_sub_def example_data_def
      example_session_def)


subsection \<open>Recording a usage report\<close>




subsection \<open>Input checks of \<^verbatim>\<open>receive_bluetooth_data\<close>\<close>

text \<open>
  Claim C4, as amended. A report with a negative duration and a time of day \<^verbatim>\<open>day\<close> or
  \<^verbatim>\<open>night\<close> is not rejected. When its start time \<open>timestamp - duration\<close> is a valid
  \<^verbatim>\<open>datetime\<close>, the timestamp being one, \<^verbatim>\<open>receive_bluetooth_data\<close> appends one session
  that carries the negative duration and marks the matching device record connected;
  the call returns the stored session with \<open>success = True\<close>, unless the websocket of
  the patient fails after the two writes. (A report with another time of day is left
  out of this statement.)
\<close>

theorem recordUsage_negative_duration:
  assumes "usage_duration data < 0"
      and "bd_time_of_day data = ''day'' \<or> bd_time_of_day data = ''night''"
      and "0 \<le> timestamp data"
      and "timestamp data - timedelta_minutes (usage_duration data) \<le> datetime_max"
  shows "\<exists>s. new_session new_id now data = Inr s
            \<and> duration_minutes s = usage_duration data
            \<and> usage_sessions (snd (receive_bluetooth_data new_id now st data))
                 = usage_sessions st @ [s]
            \<and> bluetooth_devices (snd (receive_bluetooth_data new_id now st data))
                 = update_one
                     (\<lambda>d. dev_device_id d = bd_device_id data
                           \<and> dev_patient_id d = bd_patient_id data)
                     (\<lambda>d. d\<lparr>is_connected := True, last_connected := Some now\<rparr>)
                     (bluetooth_devices st)
            \<and> fst (receive_bluetooth_data new_id now st data)
                 = (if active_connections st (bd_patient_id data) = Some Closed
                    then Inl WebSocketError
                    else Inr \<lparr>success = True, session = s\<rparr>)"
proof -
  from new_session_neg [OF assms(1,3,4)] obtain s where
    s: "new_session new_id now data = Inr s"
    by blast
  from s new_session_fields(3) [OF s] receive_sessions [OF s, of st]
    receive_devices [OF s, of st] receive_result [OF s, of st]
  show ?thesis by blast
qed

text \<open>
  The claim as stated fails: a report of -5 minutes at time of day \<^verbatim>\<open>day\<close> is accepted,
  its session is stored and the matching device is marked connected.
\<close>

theorem recordUsage_negative_duration_counterexample:
  "usage_duration (example_data (- 5) ''day'' example_time) < 0
   \<and> receive_bluetooth_data ''s'' example_time (example_state [])
        (example_data (- 5) ''day'' example_time)
      = (Inr \<lparr>success = True, session = example_session (- 5) ''day'' example_time\<rparr>,
         (example_state [])
           \<lparr>usage_sessions := [example_session (- 5) ''day'' example_time],
            bluetooth_devices :=
              [example_device\<lparr>is_connected := True, last_connected := Some example_time\<rparr>],
            sent := [(''p1'', example_session (- 5) ''day'' example_time)]\<rparr>)"
proof -
  have "new_session ''s'' example_time (example_data (- 5) ''day'' example_time)
          = Inr (example_session (- 5) ''day'' example_time)"
    by (rule example_new_session)
      (simp_all add: example_time_def timedelta_days_def timedelta_minutes_def
        datetime_max_def)
  then show ?thesis
    by (simp add: receive_bluetooth_data_def Let_def send_personal_message_def
        example_state_def example_data_def example_device_def)
qed

theorem recordUsage_negative_duration_witness:
  "usage_duration (example_data (- 5) ''night'' example_time) < 0
   \<and> (bd_time_of_day (example_data (- 5) ''night'' example_time) = ''day''
        \<or> bd_time_of_day (example_data (- 5) ''night'' example_time) = ''night'')
   \<and> 0 \<le> timestamp (example_data (- 5) ''night'' example_time)
   \<and> timestamp (example_data (- 5) ''night'' example_time)
        - timedelta_minutes (usage_duration (example_data (- 5) ''night'' example_time))
          \<le> datetime_max
   \<and> (\<exists>s. duration_minutes s = - 5
          \<and> usage_sessions (snd (receive_bluetooth_data ''s'' example_time (example_state [])
                                   (example_data (- 5) ''night'' example_time))) = [s])"
proof -
  have h: "usage_duration (example_data (- 5) ''night'' example_time) < 0"
    "bd_time_of_day (example_data (- 5) ''night'' example_time) = ''day''
        \<or> bd_time_of_day (example_data (- 5) ''night'' example_time) = ''night''"
    "0 \<le> timestamp (example_data (- 5) ''night'' example_time)"
    "timestamp (example_data (- 5) ''night'' example_time)
        - timedelta_minutes (usage_duration (example_data (- 5) ''night'' example_time))
          \<le> datetime_max"
    by (simp_all add: example_data_def example_time_def timedelta_days_def
        timedelta_minutes_def datetime_max_def)
  from recordUsage_negative_duration [OF h, of "''s''" example_time "example_state []"]
  obtain s where
    "duration_minutes s = usage_duration (example_data (- 5) ''night'' example_time)"
    "usage_sessions (snd (receive_bluetooth_data ''s'' example_time (example_state [])
        (example_data (- 5) ''night'' example_time))) = usage_sessions (example_state []) @ [s]"
    by blast
  then have "duration_minutes s = - 5
          \<and> usage_sessions (snd (receive_bluetooth_data ''s'' example_time (example_state [])
                                   (example_data (- 5) ''night'' example_time))) = [s]"
    by (simp add: example_state_simps example_data_def)
  with h show ?thesis by blast
qed

subsection \<open>Session times and the device registry\<close>

text \<open>
  Claim C7, as amended. For every accepted report, that is one for which the session is
  constructed, the stored session has \<open>start_time = timestamp - duration\<close> and
  \<open>end_time = timestamp\<close>, so \<open>end_time = start_time + duration\<close>. The device registry is
  updated, not upserted: when a device record with the report's device id and patient
  id exists, the first such record is marked connected with \<open>last_connected = now\<close> and
  every other record stays as it is; when none exists, the registry is unchanged and no
  record is created.
\<close>

theorem recordUsage_times_and_device_update:
  assumes "new_session new_id now data = Inr s"
  shows "usage_sessions (snd (receive_bluetooth_data new_id now st data))
           = usage_sessions st @ [s]
   \<and> start_time s = timestamp data - timedelta_minutes (usage_duration data)
   \<and> end_time s = timestamp data
   \<and> end_time s = start_time s + timedelta_minutes (duration_minutes s)
   \<and> (case find_one (\<lambda>d. dev_device_id d = bd_device_id data
                          \<and> dev_patient_id d = bd_patient_id data) (bluetooth_devices st) of
         None \<Rightarrow>
           bluetooth_devices (snd (receive_bluetooth_data new_id now st data))
             = bluetooth_devices st
       | Some d \<Rightarrow>
           (\<exists>ys zs. bluetooth_devices st = ys @ d # zs
              \<and> bluetooth_devices (snd (receive_bluetooth_data new_id now st data))
                  = ys @ d\<lparr>is_connected := True, last_connected := Some now\<rparr> # zs)
           \<and> find_one (\<lambda>d. dev_device_id d = bd_device_id data
                              \<and> dev_patient_id d = bd_patient_id data)
                 (bluetooth_devices (snd (receive_bluetooth_data new_id now st data)))
               = Some (d\<lparr>is_connected := True, last_connected := Some now\<rparr>))"
proof -
  let ?P = "\<lambda>d. dev_device_id d = bd_device_id data \<and> dev_patient_id d = bd_patient_id data"
  let ?f = "\<lambda>d. d\<lparr>is_connected := True, last_connected := Some now\<rparr>"
  let ?st' = "snd (receive_bluetooth_data new_id now st data)"
  note dev' = receive_devices [OF assms, of st]
  have times: "usage_sessions ?st' = usage_sessions st @ [s]
   \<and> start_time s = timestamp data - timedelta_minutes (usage_duration data)
   \<and> end_time s = timestamp data
   \<and> end_time s = start_time s + timedelta_minutes (duration_minutes s)"
    using receive_sessions [OF assms, of st] new_session_fields(1,2,3) [OF assms] by simp
  have dev: "case find_one ?P (bluetooth_devices st) of
         None \<Rightarrow> bluetooth_devices ?st' = bluetooth_devices st
       | Some d \<Rightarrow>
           (\<exists>ys zs. bluetooth_devices st = ys @ d # zs
              \<and> bluetooth_devices ?st' = ys @ ?f d # zs)
           \<and> find_one ?P (bluetooth_devices ?st') = Some (?f d)"
  proof (cases "find_one ?P (bluetooth_devices st)")
    case None
    then show ?thesis by (simp add: dev' update_one_no_match)
  next
    case (Some d)
    from update_one_match [OF Some, of ?f] obtain ys zs where
      s: "bluetooth_devices st = ys @ d # zs" "\<forall>y\<in>set ys. \<not> ?P y"
         "update_one ?P ?f (bluetooth_devices st) = ys @ ?f d # zs"
      by blast
    from Some have "?P d" unfolding find_one_def by (auto dest: find_Some_iff [THEN iffD1])
    then have "?P (?f d)" by simp
    from find_one_append_first [of ys ?P, OF s(2) this]
    have "find_one ?P (ys @ ?f d # zs) = Some (?f d)" .
    with s Some show ?thesis by (auto simp: dev')
  qed
  from times dev show ?thesis by blast
qed

text \<open>
  The claim as stated fails on a registry without a record of the device: the report is
  accepted and answered with success, and the registry is still empty after the call.
\<close>

theorem recordUsage_times_and_device_update_counterexample:
  "receive_bluetooth_data ''s'' example_time no_device_state
     (example_data 120 ''day'' example_time)
   = (Inr \<lparr>success = True, session = example_session 120 ''day'' example_time\<rparr>,
      no_device_state\<lparr>usage_sessions := [example_session 120 ''day'' example_time]\<rparr>)
   \<and> bluetooth_devices
        (no_device_state\<lparr>usage_sessions := [example_session 120 ''day'' example_time]\<rparr>) = []"
proof -
  have "new_session ''s'' example_time (example_data 120 ''day'' example_time)
          = Inr (example_session 120 ''day'' example_time)"
    by (rule example_new_session)
      (simp_all add: example_time_def timedelta_days_def timedelta_minutes_def
        datetime_max_def)
  then show ?thesis
    by (simp add: receive_bluetooth_data_def Let_def send_personal_message_def
        no_device_state_def example_data_def)
qed

theorem recordUsage_times_and_device_update_witness:
  "new_session ''s'' example_time (example_data 120 ''day'' example_time)
     = Inr (example_session 120 ''day'' example_time)
   \<and> start_time (example_session 120 ''day'' example_time) = example_time - 7200000
   \<and> find_one (\<lambda>d. dev_device_id d = ''dev1'' \<and> dev_patient_id d = ''p1'')
       (bluetooth_devices (snd (receive_bluetooth_data ''s'' example_time (example_state [])
                                  (example_data 120 ''day'' example_time))))
       = Some (example_device\<lparr>is_connected := True, last_connected := Some example_time\<rparr>)"
proof -
  have n: "new_session ''s'' example_time (example_data 120 ''day'' example_time)
          = Inr (example_session 120 ''day'' example_time)"
    by (rule example_new_session)
      (simp_all add: example_time_def timedelta_days_def timedelta_minutes_def
        datetime_max_def)
  have f: "find_one (\<lambda>d. dev_device_id d = bd_device_id (example_data 120 ''day'' example_time)
                  \<and> dev_patient_id d = bd_patient_id (example_data 120 ''day'' example_time))
     (bluetooth_devices (example_state [])) = Some example_device"
    by (simp add: find_one_def example_state_simps example_data_def example_device_def)
  from recordUsage_times_and_device_update [OF n, of "example_state []"]
  have "start_time (example_session 120 ''day'' example_time) = example_time - 7200000
   \<and> find_one (\<lambda>d. dev_device_id d = ''dev1'' \<and> dev_patient_id d = ''p1'')
       (bluetooth_devices (snd (receive_bluetooth_data ''s'' example_time (example_state [])
                                  (example_data 120 ''day'' example_time))))
       = Some (example_device\<lparr>is_connected := True, last_connected := Some example_time\<rparr>)"
    unfolding f by (simp add: example_data_def timedelta_minutes_def)
  with n show ?thesis by blast
qed

subsection \<open>The usage trend\<close>

lemma trend_unfold:
  "calculate_usage_trend now st pid =
     (let last_w = sum_list (map duration_minutes (take 1000
            (filter (\<lambda>s. patient_id s = pid \<and> now - timedelta_days 7 \<le> created_at s)
               (usage_sessions st))));
          prev_w = sum_list (map duration_minutes (take 1000
            (filter (\<lambda>s. patient_id s = pid \<and> now - timedelta_days 14 \<le> created_at s
                          \<and> created_at s < now - timedelta_days 7)
               (usage_sessions st))))
      in if prev_w = 0 then
           (if 0 < last_w then \<lparr>direction = ''increasing'', percentage = 100\<rparr>
            else \<lparr>direction = ''stable'', percentage = 0\<rparr>)
         else
           (let change_percentage = fmul (fdiv (of_int (last_w - prev_w)) (of_int prev_w)) 100
            in if 10 < change_percentage then
                 \<lparr>direction = ''increasing'', percentage = py_round change_percentage 1\<rparr>
               else if change_percentage < - 10 then
                 \<lparr>direction = ''decreasing'', percentage = py_round \<bar>change_percentage\<bar> 1\<rparr>
               else
                 \<lparr>direction = ''stable'', percentage = py_round \<bar>change_percentage\<bar> 1\<rparr>))"
  unfolding calculate_usage_trend_def last_week_duration_def prev_week_duration_def
    last_week_sessions_def prev_week_sessions_def to_list_def
  by (rule refl)

lemma if_chain3:
  "((10::rat) < c \<longrightarrow> (if 10 < c then A else if c < - 10 then B else C) = A)
   \<and> (c < - 10 \<longrightarrow> (if 10 < c then A else if c < - 10 then B else C) = B)
   \<and> (- 10 \<le> c \<and> c \<le> 10 \<longrightarrow> (if 10 < c then A else if c < - 10 then B else C) = C)"
  by auto

lemma change_700_500:
  "fmul (fdiv 200 500) 100 = 40" "py_round 40 1 = 40"
  unfolding fmul_def fdiv_def py_round_def by code_simp+

lemma change_500_700:
  "fmul (fdiv (- 200) 700) 100 < - 10"
  "py_round \<bar>fmul (fdiv (- 200) 700) 100\<bar> 1 = fl (286 / 10)"
  unfolding fmul_def fdiv_def py_round_def by code_simp+

lemma change_100_95:
  "\<not> 10 < fmul (fdiv 5 95) 100" "\<not> fmul (fdiv 5 95) 100 < - 10"
  "py_round \<bar>fmul (fdiv 5 95) 100\<bar> 1 = fl (53 / 10)"
  unfolding fmul_def fdiv_def py_round_def by code_simp+

lemma change_1000_5000:
  "fmul (fdiv (- 4000) 5000) 100 = - 80" "py_round 80 1 = 80"
  unfolding fmul_def fdiv_def py_round_def by code_simp+

text \<open>
  Claim C3, as amended. \<^verbatim>\<open>calculate_usage_trend\<close> classifies the totals of the sessions
  it fetched: \<open>recent\<close> is the total duration of the first 1000, in store order, of the
  patient's sessions with \<open>created_at \<ge> now - 7d\<close>, and \<open>previous\<close> that of the first 1000
  with \<open>now - 14d \<le> created_at < now - 7d\<close>. With \<open>previous = 0\<close> the trend is
  \<open>{increasing, 100}\<close> when \<open>recent > 0\<close> and \<open>{stable, 0}\<close> otherwise. With
  \<open>previous \<noteq> 0\<close> and \<open>changePct = (recent - previous) / previous * 100\<close>, in float
  arithmetic, the trend is \<open>{increasing, round(changePct, 1)}\<close> above 10,
  \<open>{decreasing, round(|changePct|, 1)}\<close> below -10 and \<open>{stable, round(|changePct|, 1)}\<close>
  in between. In particular 700 against 500 gives \<open>{increasing, 40.0}\<close>, 500 against 700
  gives \<open>{decreasing, 28.6}\<close> and 100 against 95 gives \<open>{stable, 5.3}\<close>.
\<close>

theorem usage_trend_classification:
  assumes "recent = sum_list (map duration_minutes (take 1000
              (filter (\<lambda>s. patient_id s = pid \<and> now - timedelta_days 7 \<le> created_at s)
                 (usage_sessions st))))"
      and "previous = sum_list (map duration_minutes (take 1000
              (filter (\<lambda>s. patient_id s = pid \<and> now - timedelta_days 14 \<le> created_at s
                            \<and> created_at s < now - timedelta_days 7)
                 (usage_sessions st))))"
  shows "(previous = 0 \<and> 0 < recent \<longrightarrow>
            calculate_usage_trend now st pid = \<lparr>direction = ''increasing'', percentage = 100\<rparr>)
       \<and> (previous = 0 \<and> recent \<le> 0 \<longrightarrow>
            calculate_usage_trend now st pid = \<lparr>direction = ''stable'', percentage = 0\<rparr>)
       \<and> (previous \<noteq> 0 \<longrightarrow>
            (let changePct = fmul (fdiv (of_int (recent - previous)) (of_int previous)) 100
             in (10 < changePct \<longrightarrow>
                   calculate_usage_trend now st pid
                     = \<lparr>direction = ''increasing'', percentage = py_round changePct 1\<rparr>)
              \<and> (changePct < - 10 \<longrightarrow>
                   calculate_usage_trend now st pid
                     = \<lparr>direction = ''decreasing'', percentage = py_round \<bar>changePct\<bar> 1\<rparr>)
              \<and> (- 10 \<le> changePct \<and> changePct \<le> 10 \<longrightarrow>
                   calculate_usage_trend now st pid
                     = \<lparr>direction = ''stable'', percentage = py_round \<bar>changePct\<bar> 1\<rparr>)))
       \<and> (recent = 700 \<and> previous = 500 \<longrightarrow>
            calculate_usage_trend now st pid = \<lparr>direction = ''increasing'', percentage = 40\<rparr>)
       \<and> (recent = 500 \<and> previous = 700 \<longrightarrow>
            calculate_usage_trend now st pid
              = \<lparr>direction = ''decreasing'', percentage = fl (286 / 10)\<rparr>)
       \<and> (recent = 100 \<and> previous = 95 \<longrightarrow>
            calculate_usage_trend now st pid
              = \<lparr>direction = ''stable'', percentage = fl (53 / 10)\<rparr>)"
proof -
  note u = trend_unfold [of now st pid, folded assms]
  have a: "previous = 0 \<and> 0 < recent \<longrightarrow>
            calculate_usage_trend now st pid = \<lparr>direction = ''increasing'', percentage = 100\<rparr>"
    by (simp add: u)
  have b: "previous = 0 \<and> recent \<le> 0 \<longrightarrow>
            calculate_usage_trend now st pid = \<lparr>direction = ''stable'', percentage = 0\<rparr>"
    by (simp add: u)
  have c: "previous \<noteq> 0 \<longrightarrow>
            (let changePct = fmul (fdiv (of_int (recent - previous)) (of_int previous)) 100
             in (10 < changePct \<longrightarrow>
                   calculate_usage_trend now st pid
                     = \<lparr>direction = ''increasing'', percentage = py_round changePct 1\<rparr>)
              \<and> (changePct < - 10 \<longrightarrow>
                   calculate_usage_trend now st pid
                     = \<lparr>direction = ''decreasing'', percentage = py_round \<bar>changePct\<bar> 1\<rparr>)
              \<and> (- 10 \<le> changePct \<and> changePct \<le> 10 \<longrightarrow>
                   calculate_usage_trend now st pid
                     = \<lparr>direction = ''stable'', percentage = py_round \<bar>changePct\<bar> 1\<rparr>))"
  proof
    assume nz: "previous \<noteq> 0"
    show "let changePct = fmul (fdiv (of_int (recent - previous)) (of_int previous)) 100
             in (10 < changePct \<longrightarrow>
                   calculate_usage_trend now st pid
                     = \<lparr>direction = ''increasing'', percentage = py_round changePct 1\<rparr>)
              \<and> (changePct < - 10 \<longrightarrow>
                   calculate_usage_trend now st pid
                     = \<lparr>direction = ''decreasing'', percentage = py_round \<bar>changePct\<bar> 1\<rparr>)
              \<and> (- 10 \<le> changePct \<and> changePct \<le> 10 \<longrightarrow>
                   calculate_usage_trend now st pid
                     = \<lparr>direction = ''stable'', percentage = py_round \<bar>changePct\<bar> 1\<rparr>)"
      unfolding u Let_def
      by (simp only: nz if_False) (rule if_chain3)
  qed
  have d: "recent = 700 \<and> previous = 500 \<longrightarrow>
            calculate_usage_trend now st pid = \<lparr>direction = ''increasing'', percentage = 40\<rparr>"
    using change_700_500 by (simp add: u Let_def)
  have e: "recent = 500 \<and> previous = 700 \<longrightarrow>
            calculate_usage_trend now st pid
              = \<lparr>direction = ''decreasing'', percentage = fl (286 / 10)\<rparr>"
    using change_500_700 by (simp add: u Let_def)
  have f: "recent = 100 \<and> previous = 95 \<longrightarrow>
            calculate_usage_trend now st pid
              = \<lparr>direction = ''stable'', percentage = fl (53 / 10)\<rparr>"
    using change_100_95 by (simp add: u Let_def)
  from a b c d e f show ?thesis by blast
qed

text \<open>
  The claim as stated, on the totals of the two windows, fails above 1000 sessions. With
  a previous week of 5000 minutes and a recent week of 1000 sessions of one minute
  followed by one session of 100000 minutes, the recent window totals 101000 minutes, a
  rise by 1920 percent; the trend computed from the first 1000 sessions is
  \<open>{decreasing, 80}\<close>.
\<close>

theorem usage_trend_classification_counterexample:
  "sum_list (map duration_minutes
      (filter (\<lambda>s. patient_id s = ''p1''
                    \<and> timedelta_days 20 - timedelta_days 7 \<le> created_at s
                    \<and> created_at s < timedelta_days 20)
         (usage_sessions (example_state trend_sessions)))) = 101000
   \<and> sum_list (map duration_minutes
      (filter (\<lambda>s. patient_id s = ''p1''
                    \<and> timedelta_days 20 - timedelta_days 14 \<le> created_at s
                    \<and> created_at s < timedelta_days 20 - timedelta_days 7)
         (usage_sessions (example_state trend_sessions)))) = 5000
   \<and> fmul (fdiv (101000 - 5000) 5000) 100 = 1920
   \<and> calculate_usage_trend (timedelta_days 20) (example_state trend_sessions) ''p1''
       = \<lparr>direction = ''decreasing'', percentage = 80\<rparr>"
proof -
  have a: "sum_list (map duration_minutes
      (filter (\<lambda>s. patient_id s = ''p1''
                    \<and> timedelta_days 20 - timedelta_days 7 \<le> created_at s
                    \<and> created_at s < timedelta_days 20)
         (usage_sessions (example_state trend_sessions)))) = 101000"
    by (simp add: example_state_simps trend_sessions_def example_session_simps
        timedelta_days_def sum_list_replicate)
  have b: "sum_list (map duration_minutes
      (filter (\<lambda>s. patient_id s = ''p1''
                    \<and> timedelta_days 20 - timedelta_days 14 \<le> created_at s
                    \<and> created_at s < timedelta_days 20 - timedelta_days 7)
         (usage_sessions (example_state trend_sessions)))) = 5000"
    by (simp add: example_state_simps trend_sessions_def example_session_simps
        timedelta_days_def)
  have c: "fmul (fdiv (101000 - 5000) 5000) 100 = 1920"
    unfolding fmul_def fdiv_def by code_simp
  have d: "calculate_usage_trend (timedelta_days 20) (example_state trend_sessions) ''p1''
       = \<lparr>direction = ''decreasing'', percentage = 80\<rparr>"
    using change_1000_5000
    by (simp add: trend_unfold example_state_simps trend_sessions_def example_session_simps
        timedelta_days_def Let_def sum_list_replicate)
  from a b c d show ?thesis by blast
qed

theorem usage_trend_classification_witness:
  "sum_list (map duration_minutes (take 1000
      (filter (\<lambda>s. patient_id s = ''p1'' \<and> timedelta_days 20 - timedelta_days 7 \<le> created_at s)
         (usage_sessions (example_state [example_session 500 ''day'' (timedelta_days 10),
                                         example_session 700 ''day'' (timedelta_days 15)]))))) = 700
   \<and> sum_list (map duration_minutes (take 1000
      (filter (\<lambda>s. patient_id s = ''p1'' \<and> timedelta_days 20 - timedelta_days 14 \<le> created_at s
                    \<and> created_at s < timedelta_days 20 - timedelta_days 7)
         (usage_sessions (example_state [example_session 500 ''day'' (timedelta_days 10),
                                         example_session 700 ''day'' (timedelta_days 15)]))))) = 500
   \<and> calculate_usage_trend (timedelta_days 20)
     (example_state [example_session 500 ''day'' (timedelta_days 10),
                     example_session 700 ''day'' (timedelta_days 15)]) ''p1''
       = \<lparr>direction = ''increasing'', percentage = 40\<rparr>"
proof -
  let ?st = "example_state [example_session 500 ''day'' (timedelta_days 10),
                     example_session 700 ''day'' (timedelta_days 15)]"
  have r: "700 = sum_list (map duration_minutes (take 1000
      (filter (\<lambda>s. patient_id s = ''p1'' \<and> timedelta_days 20 - timedelta_days 7 \<le> created_at s)
         (usage_sessions ?st))))"
    by (simp add: example_state_simps example_session_simps timedelta_days_def)
  have p: "500 = sum_list (map duration_minutes (take 1000
      (filter (\<lambda>s. patient_id s = ''p1'' \<and> timedelta_days 20 - timedelta_days 14 \<le> created_at s
                    \<and> created_at s < timedelta_days 20 - timedelta_days 7)
         (usage_sessions ?st))))"
    by (simp add: example_state_simps example_session_simps timedelta_days_def)
  from usage_trend_classification [OF r p]
  have "calculate_usage_trend (timedelta_days 20) ?st ''p1''
          = \<lparr>direction = ''increasing'', percentage = 40\<rparr>"
    by blast
  with r [symmetric] p [symmetric] show ?thesis by blast
qed

subsection \<open>Auxiliary facts on \<^verbatim>\<open>get_patient_analytics\<close>\<close>

lemma analytics_start_Inr_D:
  assumes "analytics_start now days = Inr start"
  shows "start = now - timedelta_days days" and "0 \<le> start" and "start \<le> datetime_max"
  using assms
  by (auto simp: analytics_start_def timedelta_def datetime_sub_def split: if_splits)


lemma analytics_start_Inr:
  assumes "0 \<le> days" and "0 \<le> now - timedelta_days days" and "now \<le> datetime_max"
  shows "analytics_start now days = Inr (now - timedelta_days days)"
proof -
  let ?delta = "timedelta_days days"
  have d0: "0 \<le> ?delta" using assms(1) by (simp add: timedelta_days_def)
  then have 1: "- 999999999 \<le> ?delta div 86400000"
    using pos_imp_zdiv_nonneg_iff [of 86400000 ?delta] by simp
  have "?delta \<le> datetime_max" using assms(2,3) by simp
  then have "?delta div 86400000 \<le> datetime_max div 86400000" by (rule zdiv_mono1) simp
  then have 2: "?delta div 86400000 \<le> 999999999" by (simp add: datetime_max_def)
  have 4: "now - ?delta \<le> datetime_max" using d0 assms(3) by simp
  from 1 2 assms(2) 4 show ?thesis
    by (simp add: analytics_start_def timedelta_def datetime_sub_def)
qed

lemma analytics_Inl:
  "analytics_start now days = Inl e \<Longrightarrow> get_patient_analytics now st pid days = Inl e"
  by (simp add: get_patient_analytics_def)

lemma analytics_group_Inl:
  assumes "analytics_start now days = Inr start"
      and "group_sessions (analytics_sessions start st pid) [] [(''day'', 0), (''night'', 0)]
             = Inl e"
  shows "get_patient_analytics now st pid days = Inl e"
  unfolding get_patient_analytics_def Let_def assms(1)
  by (simp only: sum.case assms(2))

lemma analytics_group_Inr:
  assumes "analytics_start now days = Inr start"
      and "group_sessions (analytics_sessions start st pid) [] [(''day'', 0), (''night'', 0)]
             = Inr (daily_usage, day_night_usage)"
  shows "get_patient_analytics now st pid days =
     Inr \<lparr>time_series = series_from start now daily_usage,
          day_night_distribution = day_night_usage,
          total_days = length daily_usage,
          active_days = length (filter (\<lambda>d. 0 < d) (map snd daily_usage)),
          average_daily_minutes =
            fdiv (of_int (sum_list (map snd daily_usage)))
              (of_nat (max (length daily_usage) 1)),
          an_average_daily_hours =
            py_round
              (fdiv (fdiv (of_int (sum_list (map snd daily_usage)))
                       (of_nat (max (length daily_usage) 1))) 60) 2\<rparr>"
  unfolding get_patient_analytics_def Let_def assms(1)
  by (simp only: sum.case assms(2) prod.case)



lemma analytics_Inr_D:
  assumes "get_patient_analytics now st pid days = Inr r"
  obtains start daily_usage day_night_usage where
    "analytics_start now days = Inr start"
    "group_sessions (analytics_sessions start st pid) [] [(''day'', 0), (''night'', 0)]
       = Inr (daily_usage, day_night_usage)"
proof (cases "analytics_start now days")
  case (Inl e)
  from analytics_Inl [OF this, of st pid] assms show ?thesis by simp
next
  case (Inr start)
  show ?thesis
  proof (cases "group_sessions (analytics_sessions start st pid) []
                  [(''day'', 0), (''night'', 0)]")
    case (Inl e)
    from analytics_group_Inl [OF Inr this] assms show ?thesis by simp
  next
    case Inr2: (Inr p)
    obtain du dn where "p = (du, dn)" by (cases p)
    with Inr Inr2 that show ?thesis by blast
  qed
qed


subsection \<open>The time of day in the analytics\<close>




lemma usage_point_simps [simp]:
  "date (usage_point du k) = k"
  "usage_minutes (usage_point du k) = dict_get du k 0"
  by (simp_all add: usage_point_def)

lemma analytics_sessions_subset:
  "set (analytics_sessions start st pid)
     \<subseteq> {s \<in> set (usage_sessions st). patient_id s = pid \<and> start \<le> created_at s}"
proof -
  have "set (analytics_sessions start st pid)
          \<subseteq> set (sort_key created_at
                (filter (\<lambda>s. patient_id s = pid \<and> start \<le> created_at s) (usage_sessions st)))"
    unfolding analytics_sessions_def to_list_def by (rule set_take_subset)
  then show ?thesis by auto
qed

lemma analytics_result:
  assumes "get_patient_analytics now st pid days = Inr r"
  obtains du dn where
    "group_sessions (analytics_sessions (now - timedelta_days days) st pid) []
       [(''day'', 0), (''night'', 0)] = Inr (du, dn)"
    "time_series r = map (usage_point du) [date_key now - days .. date_key now]"
    "total_days r = length du"
    "active_days r = length (filter (\<lambda>d. 0 < d) (map snd du))"
proof -
  from assms obtain start du dn where
    s: "analytics_start now days = Inr start" and
    g: "group_sessions (analytics_sessions start st pid) [] [(''day'', 0), (''night'', 0)]
       = Inr (du, dn)"
    by (rule analytics_Inr_D)
  note st = analytics_start_Inr_D(1) [OF s]
  from analytics_group_Inr [OF s g] assms have
    r: "time_series r = series_from start now du" "total_days r = length du"
       "active_days r = length (filter (\<lambda>d. 0 < d) (map snd du))"
    by auto
  have "time_series r = map (usage_point du) [date_key now - days .. date_key now]"
    unfolding r(1) st series_from_window date_key_window by (rule refl)
  with g r(2,3) that show ?thesis unfolding st by blast
qed

subsection \<open>The daily time series\<close>

text \<open>
  Claim C5, as amended. When \<^verbatim>\<open>get_patient_analytics\<close> returns, its time series has
  exactly one point for each calendar day from the day of \<open>now - days\<close> to today, in
  order: \<open>days + 1\<close> points for \<open>days \<ge> 0\<close>. The usage of a point is the total duration of
  the fetched sessions created on its day, so it is 0 on a day on which the patient has
  no session. \<open>total_days\<close> is the number of days with a fetched session and
  \<open>active_days\<close> the number of days whose total is positive. In particular a window of 2
  days with sessions on its first and its third day only gives 3 points, the second one
  with usage 0, and \<open>active_days = 2\<close>, \<open>total_days = 2\<close>.
\<close>

theorem getAnalytics_time_series:
  assumes "get_patient_analytics now st pid days = Inr r"
  shows "map date (time_series r) = [date_key now - days .. date_key now]
       \<and> length (time_series r) = nat (days + 1)
       \<and> (\<forall>p\<in>set (time_series r).
             usage_minutes p
               = sum_list (map duration_minutes
                   (filter (\<lambda>s. date_key (created_at s) = date p)
                      (analytics_sessions (now - timedelta_days days) st pid))))
       \<and> (\<forall>p\<in>set (time_series r).
             (\<forall>s\<in>set (usage_sessions st).
                patient_id s = pid \<longrightarrow> date_key (created_at s) \<noteq> date p)
             \<longrightarrow> usage_minutes p = 0)
       \<and> total_days r
           = card ((\<lambda>s. date_key (created_at s))
                     ` set (analytics_sessions (now - timedelta_days days) st pid))
       \<and> active_days r
           = card {k \<in> (\<lambda>s. date_key (created_at s))
                          ` set (analytics_sessions (now - timedelta_days days) st pid).
                   0 < sum_list (map duration_minutes
                         (filter (\<lambda>s. date_key (created_at s) = k)
                            (analytics_sessions (now - timedelta_days days) st pid)))}"
proof -
  let ?ss = "analytics_sessions (now - timedelta_days days) st pid"
  let ?tot = "\<lambda>k. sum_list (map duration_minutes
                       (filter (\<lambda>s. date_key (created_at s) = k) ?ss))"
  from assms obtain du dn where
    g: "group_sessions ?ss [] [(''day'', 0), (''night'', 0)] = Inr (du, dn)" and
    ts: "time_series r = map (usage_point du) [date_key now - days .. date_key now]" and
    td: "total_days r = length du" and
    ad: "active_days r = length (filter (\<lambda>d. 0 < d) (map snd du))"
    by (rule analytics_result)
  from group_sessions_daily [OF g] have
    dist: "distinct (map fst du)" and
    keys: "fst ` set du = (\<lambda>s. date_key (created_at s)) ` set ?ss" and
    get: "\<And>k. dict_get du k 0 = ?tot k"
    by (simp_all add: dict_get_def)
  have 1: "map date (time_series r) = [date_key now - days .. date_key now]"
    unfolding ts by (simp add: comp_def)
  have 2: "length (time_series r) = nat (days + 1)"
    unfolding ts by simp
  have 3: "\<forall>p\<in>set (time_series r). usage_minutes p = ?tot (date p)"
    unfolding ts by (auto simp: get)
  have 4: "\<forall>p\<in>set (time_series r).
             (\<forall>s\<in>set (usage_sessions st).
                patient_id s = pid \<longrightarrow> date_key (created_at s) \<noteq> date p)
             \<longrightarrow> usage_minutes p = 0"
  proof (intro ballI impI)
    fix p
    assume p: "p \<in> set (time_series r)"
      and no: "\<forall>s\<in>set (usage_sessions st).
                 patient_id s = pid \<longrightarrow> date_key (created_at s) \<noteq> date p"
    have "filter (\<lambda>s. date_key (created_at s) = date p) ?ss = []"
      using no analytics_sessions_subset [of "now - timedelta_days days" st pid]
      by (auto simp: filter_empty_conv)
    with 3 p show "usage_minutes p = 0" by simp
  qed
  have 5: "total_days r = card ((\<lambda>s. date_key (created_at s)) ` set ?ss)"
    unfolding td length_dict_card [OF dist] keys by (rule refl)
  have 6: "active_days r
           = card {k \<in> (\<lambda>s. date_key (created_at s)) ` set ?ss. 0 < ?tot k}"
    unfolding ad count_positive_values [OF dist, of "\<lambda>d. 0 < d" 0] keys get by (rule refl)
  from 1 2 3 4 5 6 show ?thesis by blast
qed

lemma window_group:
  "group_sessions window_sessions [] [(''day'', 0), (''night'', 0)]
     = Inr ([(739251, 60), (739253, 30)], [(''day'', 60), (''night'', 30)])"
  by (simp add: window_sessions_def example_session_simps Let_def dict_item_def dict_set_def
      dict_get_def date_key_def timedelta_days_def)

lemma window_analytics_sessions:
  "start \<le> timedelta_days 739251
   \<Longrightarrow> analytics_sessions start (example_state window_sessions) ''p1'' = window_sessions"
  by (simp add: analytics_sessions_def to_list_def example_state_simps window_sessions_def
      example_session_simps timedelta_days_def)

lemma window_series:
  "map usage_minutes (map (usage_point [(739251, 60), (739253, 30)]) [739251 .. 739254])
     = [60, 0, 30, 0]"
  "map usage_minutes (map (usage_point [(739251, 60), (739253, 30)]) [739251 .. 739253])
     = [60, 0, 30]"
  by (simp_all add: upto_rec1 dict_get_def)

text \<open>
  The claim as stated fails in its example: over a window of 3 days with sessions on the
  first and the third day only, the series has 4 points.
\<close>

theorem getAnalytics_time_series_counterexample:
  "map_sum id (\<lambda>r. (length (time_series r), map usage_minutes (time_series r),
                      active_days r, total_days r))
     (get_patient_analytics (timedelta_days 739254) (example_state window_sessions) ''p1'' 3)
   = Inr (4, [60, 0, 30, 0], 2, 2)"
proof -
  have s: "analytics_start (timedelta_days 739254) 3 = Inr (timedelta_days 739251)"
    using analytics_start_Inr [of 3 "timedelta_days 739254"]
    by (simp add: timedelta_days_def datetime_max_def)
  have g: "group_sessions
             (analytics_sessions (timedelta_days 739251) (example_state window_sessions) ''p1'')
             [] [(''day'', 0), (''night'', 0)]
           = Inr ([(739251, 60), (739253, 30)], [(''day'', 60), (''night'', 30)])"
    by (simp add: window_analytics_sessions window_group)
  have t: "series_from (timedelta_days 739251) (timedelta_days 739254)
             [(739251, 60), (739253, 30)]
           = map (usage_point [(739251, 60), (739253, 30)]) [739251 .. 739254]"
    using series_from_window [of "timedelta_days 739254" 3]
    by (simp add: timedelta_days_def date_key_def)
  show ?thesis
    unfolding analytics_group_Inr [OF s g] t
    using window_series(1) by simp
qed

theorem getAnalytics_time_series_witness:
  "\<exists>r. get_patient_analytics (timedelta_days 739253) (example_state window_sessions) ''p1'' 2
          = Inr r
       \<and> map date (time_series r) = [739251, 739252, 739253]
       \<and> length (time_series r) = 3
       \<and> map usage_minutes (time_series r) = [60, 0, 30]
       \<and> active_days r = 2 \<and> total_days r = 2"
proof -
  have s: "analytics_start (timedelta_days 739253) 2 = Inr (timedelta_days 739251)"
    using analytics_start_Inr [of 2 "timedelta_days 739253"]
    by (simp add: timedelta_days_def datetime_max_def)
  have g: "group_sessions
             (analytics_sessions (timedelta_days 739251) (example_state window_sessions) ''p1'')
             [] [(''day'', 0), (''night'', 0)]
           = Inr ([(739251, 60), (739253, 30)], [(''day'', 60), (''night'', 30)])"
    by (simp add: window_analytics_sessions window_group)
  have t: "series_from (timedelta_days 739251) (timedelta_days 739253)
             [(739251, 60), (739253, 30)]
           = map (usage_point [(739251, 60), (739253, 30)]) [739251 .. 739253]"
    using series_from_window [of "timedelta_days 739253" 2]
    by (simp add: timedelta_days_def date_key_def)
  note r = analytics_group_Inr [OF s g]
  from getAnalytics_time_series [OF r]
  have "map date (time_series
          \<lparr>time_series = series_from (timedelta_days 739251) (timedelta_days 739253)
                           [(739251, 60), (739253, 30)],
           day_night_distribution = [(''day'', 60), (''night'', 30)],
           total_days = length [(739251::int, 60::int), (739253, 30)],
           active_days = length (filter (\<lambda>d. 0 < d) (map snd [(739251::int, 60::int), (739253, 30)])),
           average_daily_minutes =
             fdiv (of_int (sum_list (map snd [(739251::int, 60::int), (739253, 30)])))
               (of_nat (max (length [(739251::int, 60::int), (739253, 30)]) 1)),
           an_average_daily_hours =
             py_round
               (fdiv (fdiv (of_int (sum_list (map snd [(739251::int, 60::int), (739253, 30)])))
                        (of_nat (max (length [(739251::int, 60::int), (739253, 30)]) 1))) 60) 2\<rparr>)
        = [date_key (timedelta_days 739253) - 2 .. date_key (timedelta_days 739253)]"
    by blast
  then have d: "map date (series_from (timedelta_days 739251) (timedelta_days 739253)
                           [(739251, 60), (739253, 30)]) = [739251, 739252, 739253]"
    by (simp add: date_key_def timedelta_days_def upto_rec1)
  show ?thesis
    unfolding r using d window_series(2) by (simp add: t)
qed

subsection \<open>The roster\<close>







subsection \<open>The cap of the session queries\<close>

text \<open>
  Claim C9. Each of the four session queries of the aggregation operations returns the
  first 1000 documents of its window and no more: the 30-day query of
  \<^verbatim>\<open>get_patient_compliance\<close>, the two week queries of \<^verbatim>\<open>calculate_usage_trend\<close> and the
  window query of \<^verbatim>\<open>get_patient_analytics\<close>. With more than 1000 sessions in a window
  exactly 1000 are read. The results are computed from the fetched sessions alone: two
  stores on which the queries return the same sessions give the same summary, the same
  trend and the same analytics, whatever other sessions the windows hold.
\<close>

theorem aggregation_queries_capped:
  "length (compliance_sessions now st pid) \<le> 1000
   \<and> length (last_week_sessions now st pid) \<le> 1000
   \<and> length (prev_week_sessions now st pid) \<le> 1000
   \<and> length (analytics_sessions start st pid) \<le> 1000
   \<and> compliance_sessions now st pid
       = take 1000 (filter (\<lambda>s. patient_id s = pid \<and> now - timedelta_days 30 \<le> created_at s)
                      (usage_sessions st))
   \<and> last_week_sessions now st pid
       = take 1000 (filter (\<lambda>s. patient_id s = pid \<and> now - timedelta_days 7 \<le> created_at s)
                      (usage_sessions st))
   \<and> prev_week_sessions now st pid
       = take 1000 (filter (\<lambda>s. patient_id s = pid \<and> now - timedelta_days 14 \<le> created_at s
                                  \<and> created_at s < now - timedelta_days 7)
                      (usage_sessions st))
   \<and> analytics_sessions start st pid
       = take 1000 (sort_key created_at
                      (filter (\<lambda>s. patient_id s = pid \<and> start \<le> created_at s)
                         (usage_sessions st)))
   \<and> (1000 < length (filter (\<lambda>s. patient_id s = pid \<and> now - timedelta_days 30 \<le> created_at s)
                         (usage_sessions st))
        \<longrightarrow> length (compliance_sessions now st pid) = 1000)
   \<and> (1000 < length (filter (\<lambda>s. patient_id s = pid \<and> now - timedelta_days 7 \<le> created_at s)
                         (usage_sessions st))
        \<longrightarrow> length (last_week_sessions now st pid) = 1000)
   \<and> (1000 < length (filter (\<lambda>s. patient_id s = pid \<and> now - timedelta_days 14 \<le> created_at s
                                     \<and> created_at s < now - timedelta_days 7)
                         (usage_sessions st))
        \<longrightarrow> length (prev_week_sessions now st pid) = 1000)
   \<and> (1000 < length (filter (\<lambda>s. patient_id s = pid \<and> start \<le> created_at s)
                         (usage_sessions st))
        \<longrightarrow> length (analytics_sessions start st pid) = 1000)
   \<and> (\<forall>r. get_patient_compliance now st pid = Inr r \<longrightarrow>
          total_sessions r = length (compliance_sessions now st pid)
          \<and> total_duration_minutes r
              = sum_list (map duration_minutes (compliance_sessions now st pid))
          \<and> average_daily_usage r
              = (if 0 < sum_list (map duration_minutes (compliance_sessions now st pid))
                 then fdiv (of_int (sum_list (map duration_minutes
                                      (compliance_sessions now st pid)))) 30
                 else 0)
          \<and> compliance_percentage r
              = min 100 (fmul (fdiv (of_int (sum_list (map duration_minutes
                                       (compliance_sessions now st pid)))) (30 * 480)) 100))
   \<and> (\<forall>st'. last_week_sessions now st' pid = last_week_sessions now st pid
             \<and> prev_week_sessions now st' pid = prev_week_sessions now st pid
          \<longrightarrow> calculate_usage_trend now st' pid = calculate_usage_trend now st pid)
   \<and> (\<forall>st'. users st' = users st \<and> bluetooth_devices st' = bluetooth_devices st
             \<and> compliance_sessions now st' pid = compliance_sessions now st pid
             \<and> last_week_sessions now st' pid = last_week_sessions now st pid
             \<and> prev_week_sessions now st' pid = prev_week_sessions now st pid
          \<longrightarrow> get_patient_compliance now st' pid = get_patient_compliance now st pid)
   \<and> (\<forall>st' days. analytics_start now days = Inr start
             \<and> analytics_sessions start st' pid = analytics_sessions start st pid
          \<longrightarrow> get_patient_analytics now st' pid days
                = get_patient_analytics now st pid days)"
proof -
  have len: "length (compliance_sessions now st pid) \<le> 1000
   \<and> length (last_week_sessions now st pid) \<le> 1000
   \<and> length (prev_week_sessions now st pid) \<le> 1000
   \<and> length (analytics_sessions start st pid) \<le> 1000"
    by (simp add: compliance_sessions_def last_week_sessions_def prev_week_sessions_def
        analytics_sessions_def to_list_def)
  have eq: "compliance_sessions now st pid
       = take 1000 (filter (\<lambda>s. patient_id s = pid \<and> now - timedelta_days 30 \<le> created_at s)
                      (usage_sessions st))
   \<and> last_week_sessions now st pid
       = take 1000 (filter (\<lambda>s. patient_id s = pid \<and> now - timedelta_days 7 \<le> created_at s)
                      (usage_sessions st))
   \<and> prev_week_sessions now st pid
       = take 1000 (filter (\<lambda>s. patient_id s = pid \<and> now - timedelta_days 14 \<le> created_at s
                                  \<and> created_at s < now - timedelta_days 7)
                      (usage_sessions st))
   \<and> analytics_sessions start st pid
       = take 1000 (sort_key created_at
                      (filter (\<lambda>s. patient_id s = pid \<and> start \<le> created_at s)
                         (usage_sessions st)))"
    by (simp add: compliance_sessions_def last_week_sessions_def prev_week_sessions_def
        analytics_sessions_def to_list_def)
  have c1: "1000 < length (filter (\<lambda>s. patient_id s = pid \<and> now - timedelta_days 30 \<le> created_at s)
                         (usage_sessions st))
        \<longrightarrow> length (compliance_sessions now st pid) = 1000"
    by (simp add: compliance_sessions_def to_list_def)
  have c2: "1000 < length (filter (\<lambda>s. patient_id s = pid \<and> now - timedelta_days 7 \<le> created_at s)
                         (usage_sessions st))
        \<longrightarrow> length (last_week_sessions now st pid) = 1000"
    by (simp add: last_week_sessions_def to_list_def)
  have c3: "1000 < length (filter (\<lambda>s. patient_id s = pid \<and> now - timedelta_days 14 \<le> created_at s
                                     \<and> created_at s < now - timedelta_days 7)
                         (usage_sessions st))
        \<longrightarrow> length (prev_week_sessions now st pid) = 1000"
    by (simp add: prev_week_sessions_def to_list_def)
  have c4: "1000 < length (filter (\<lambda>s. patient_id s = pid \<and> start \<le> created_at s)
                         (usage_sessions st))
        \<longrightarrow> length (analytics_sessions start st pid) = 1000"
    by (simp add: analytics_sessions_def to_list_def)
  have r: "\<forall>r. get_patient_compliance now st pid = Inr r \<longrightarrow>
          total_sessions r = length (compliance_sessions now st pid)
          \<and> total_duration_minutes r
              = sum_list (map duration_minutes (compliance_sessions now st pid))
          \<and> average_daily_usage r
              = (if 0 < sum_list (map duration_minutes (compliance_sessions now st pid))
                 then fdiv (of_int (sum_list (map duration_minutes
                                      (compliance_sessions now st pid)))) 30
                 else 0)
          \<and> compliance_percentage r
              = min 100 (fmul (fdiv (of_int (sum_list (map duration_minutes
                                       (compliance_sessions now st pid)))) (30 * 480)) 100)"
  proof (cases "find_one (\<lambda>u. user_id u = pid) (users st)")
    case None
    then show ?thesis by (simp add: gpc_not_found)
  next
    case (Some u)
    show ?thesis unfolding gpc_found [OF Some] by simp
  qed
  have t: "\<forall>st'. last_week_sessions now st' pid = last_week_sessions now st pid
             \<and> prev_week_sessions now st' pid = prev_week_sessions now st pid
          \<longrightarrow> calculate_usage_trend now st' pid = calculate_usage_trend now st pid"
    by (simp add: calculate_usage_trend_def last_week_duration_def prev_week_duration_def)
  have g: "\<forall>st'. users st' = users st \<and> bluetooth_devices st' = bluetooth_devices st
             \<and> compliance_sessions now st' pid = compliance_sessions now st pid
             \<and> last_week_sessions now st' pid = last_week_sessions now st pid
             \<and> prev_week_sessions now st' pid = prev_week_sessions now st pid
          \<longrightarrow> get_patient_compliance now st' pid = get_patient_compliance now st pid"
  proof (intro allI impI)
    fix st'
    assume h: "users st' = users st \<and> bluetooth_devices st' = bluetooth_devices st
             \<and> compliance_sessions now st' pid = compliance_sessions now st pid
             \<and> last_week_sessions now st' pid = last_week_sessions now st pid
             \<and> prev_week_sessions now st' pid = prev_week_sessions now st pid"
    then have u: "users st' = users st" and d: "bluetooth_devices st' = bluetooth_devices st"
      and c: "compliance_sessions now st' pid = compliance_sessions now st pid"
      and l: "last_week_sessions now st' pid = last_week_sessions now st pid"
      and p: "prev_week_sessions now st' pid = prev_week_sessions now st pid"
      by simp_all
    have tr: "calculate_usage_trend now st' pid = calculate_usage_trend now st pid"
      unfolding calculate_usage_trend_def last_week_duration_def prev_week_duration_def l p
      by (rule refl)
    show "get_patient_compliance now st' pid = get_patient_compliance now st pid"
      unfolding get_patient_compliance_def u d c tr by (rule refl)
  qed
  have a: "\<forall>st' days. analytics_start now days = Inr start
             \<and> analytics_sessions start st' pid = analytics_sessions start st pid
          \<longrightarrow> get_patient_analytics now st' pid days
                = get_patient_analytics now st pid days"
  proof (intro allI impI)
    fix st' days
    assume "analytics_start now days = Inr start
             \<and> analytics_sessions start st' pid = analytics_sessions start st pid"
    then have s: "analytics_start now days = Inr start"
      and e: "analytics_sessions start st' pid = analytics_sessions start st pid"
      by simp_all
    show "get_patient_analytics now st' pid days = get_patient_analytics now st pid days"
      unfolding get_patient_analytics_def s by (simp only: sum.case e)
  qed
  from len eq c1 c2 c3 c4 r t g a show ?thesis by blast
qed

theorem aggregation_queries_capped_witness:
  "length (filter (\<lambda>s. patient_id s = ''p1''
                        \<and> timedelta_days 102 - timedelta_days 30 \<le> created_at s)
             (usage_sessions (example_state capped_sessions))) = 1001
   \<and> sum_list (map duration_minutes
        (filter (\<lambda>s. patient_id s = ''p1''
                      \<and> timedelta_days 102 - timedelta_days 30 \<le> created_at s)
           (usage_sessions (example_state capped_sessions)))) = 10010
   \<and> length (compliance_sessions (timedelta_days 102) (example_state capped_sessions) ''p1'')
       = 1000
   \<and> map_sum id total_duration_minutes
        (get_patient_compliance (timedelta_days 102) (example_state capped_sessions) ''p1'')
       = Inr 10000
   \<and> get_patient_compliance (timedelta_days 102) (example_state capped_sessions) ''p1''
       = get_patient_compliance (timedelta_days 102)
           (example_state (replicate 1000 (example_session 10 ''day'' (timedelta_days 100))))
           ''p1''"
proof -
  let ?now = "timedelta_days 102"
  let ?s = "example_session 10 ''day'' (timedelta_days 100)"
  let ?st = "example_state (replicate 1000 ?s)"
  let ?st' = "example_state capped_sessions"
  have w: "length (filter (\<lambda>s. patient_id s = ''p1''
                        \<and> ?now - timedelta_days 30 \<le> created_at s)
             (usage_sessions ?st')) = 1001"
    by (simp add: example_state_simps capped_sessions_def example_session_simps
        timedelta_days_def)
  have t: "sum_list (map duration_minutes
        (filter (\<lambda>s. patient_id s = ''p1'' \<and> ?now - timedelta_days 30 \<le> created_at s)
           (usage_sessions ?st'))) = 10010"
    by (simp add: example_state_simps capped_sessions_def example_session_simps
        timedelta_days_def sum_list_replicate)
  note T' = aggregation_queries_capped [of ?now ?st' "''p1''" 0]
  from T' w have l: "length (compliance_sessions ?now ?st' ''p1'') = 1000"
    by simp
  have r: "map_sum id total_duration_minutes (get_patient_compliance ?now ?st' ''p1'')
             = Inr 10000"
    unfolding gpc_found [OF example_find_user] capped_compliance_sessions
    by (simp add: example_session_simps sum_list_replicate)
  have h: "users ?st' = users ?st" "bluetooth_devices ?st' = bluetooth_devices ?st"
    "compliance_sessions ?now ?st' ''p1'' = compliance_sessions ?now ?st ''p1''"
    "last_week_sessions ?now ?st' ''p1'' = last_week_sessions ?now ?st ''p1''"
    "prev_week_sessions ?now ?st' ''p1'' = prev_week_sessions ?now ?st ''p1''"
    by (simp_all add: example_state_simps compliance_sessions_def last_week_sessions_def
        prev_week_sessions_def to_list_def capped_sessions_def example_session_simps
        timedelta_days_def)
  from aggregation_queries_capped [of ?now ?st "''p1''" 0] h
  have e: "get_patient_compliance ?now ?st' ''p1'' = get_patient_compliance ?now ?st ''p1''"
    by blast
  from w t l r e show ?thesis by blast
qed

end
